theory Spec2Isabelle
  imports Complex_Main "HOL-Library.Char_ord" "HOL-Library.List_Lexorder"
begin

section \<open>JavaScript values\<close>

text \<open>
  The values \<^verbatim>\<open>JSON.parse\<close> can return. A number is a double that JSON can
  write, so neither NaN nor an infinity; an object is the list of its own properties,
  each key once.
\<close>

datatype json =
    JNull
  | JBool bool
  | JNum real
  | JStr string
  | JArr "json list"
  | JObj "(string \<times> json) list"

text \<open>What \<^verbatim>\<open>!!v\<close> is.\<close>

fun truthy :: "json \<Rightarrow> bool" where
  "truthy JNull = False"
| "truthy (JBool b) = b"
| "truthy (JNum x) = (x \<noteq> 0)"
| "truthy (JStr s) = (s \<noteq> [])"
| "truthy (JArr xs) = True"
| "truthy (JObj fs) = True"

text \<open>
  \<^verbatim>\<open>v || d\<close>, where \<open>None\<close> is \<^verbatim>\<open>undefined\<close>.
\<close>

fun or_else :: "json option \<Rightarrow> json \<Rightarrow> json" where
  "or_else None d = d"
| "or_else (Some v) d = (if truthy v then v else d)"

definition typeError_null :: "string \<Rightarrow> string" where
  "typeError_null k =
     ''Cannot read properties of null (reading '' @ [CHR 0x27] @ k @ [CHR 0x27] @ '')''"

text \<open>
  \<^verbatim>\<open>result.k\<close> for the keys the gateway reads (\<^verbatim>\<open>keyPoints\<close>,
  \<^verbatim>\<open>flashcards\<close>, ...), none of which is a built-in property of a string, an
  array, a number or a boolean: reading it from \<^verbatim>\<open>null\<close> raises a TypeError
  (\<open>Inl\<close> its message), an object gives its own property or \<^verbatim>\<open>undefined\<close>,
  anything else gives \<^verbatim>\<open>undefined\<close>.
\<close>

fun read_prop :: "json \<Rightarrow> string \<Rightarrow> string + json option" where
  "read_prop JNull k = Inl (typeError_null k)"
| "read_prop (JObj fs) k = Inr (map_of fs k)"
| "read_prop v k = Inr None"

text \<open>\<^verbatim>\<open>s.substring(0, n)\<close> on a string of code units.\<close>

definition substring0 :: "string \<Rightarrow> nat \<Rightarrow> string" where
  "substring0 s n = take n s"

section \<open>The AI gateway\<close>

text \<open>
  One chat completion followed by \<^verbatim>\<open>JSON.parse(content || "{}")\<close>, which is all
  the gateway does inside its \<^verbatim>\<open>try\<close>. The provider and the parser are
  outside the repository, so what they do is a value of this type.
\<close>

datatype completion =
    Rejected "string option"
      \<comment> \<open>the awaited call throws; the message when the thrown value is an Error\<close>
  | NoContent
      \<comment> \<open>\<^verbatim>\<open>message.content\<close> is null or empty, so \<^verbatim>\<open>"{}"\<close> is parsed\<close>
  | Malformed string
      \<comment> \<open>\<^verbatim>\<open>JSON.parse\<close> throws a SyntaxError with this message\<close>
  | Json json
      \<comment> \<open>\<^verbatim>\<open>JSON.parse\<close> returns this value\<close>

datatype error = Error string

text \<open>
  The value bound to \<^verbatim>\<open>result\<close>, or the message of what was thrown
  (\<open>None\<close> when the thrown value is not an Error).
\<close>

fun parsed :: "completion \<Rightarrow> string option + json" where
  "parsed (Rejected m) = Inl m"
| "parsed NoContent = Inr (JObj [])"
| "parsed (Malformed m) = Inl (Some m)"
| "parsed (Json v) = Inr v"

text \<open>
  \<^verbatim>\<open>error instanceof Error ? error.message : "Unknown error"\<close>
\<close>

fun message_of :: "string option \<Rightarrow> string" where
  "message_of None = ''Unknown error''"
| "message_of (Some m) = m"

subsection \<open>summarizeContent\<close>

record SummaryResult =
  keyPoints :: json
  definitions :: json
  formulas :: json
  mainConcepts :: json
  fullSummary :: json

text \<open>The two holes of the prompt template.\<close>

record summary_prompt =
  sp_title :: string
  sp_content :: string

definition summarizePrompt :: "string \<Rightarrow> string \<Rightarrow> summary_prompt" where
  "summarizePrompt content title =
     \<lparr>sp_title = title, sp_content = substring0 content 3000\<rparr>"

text \<open>
  The object literal after \<^verbatim>\<open>JSON.parse\<close>: the five reads happen in order,
  and the first that throws ends the \<^verbatim>\<open>try\<close> block.
\<close>

definition summary_of :: "json \<Rightarrow> string + SummaryResult" where
  "summary_of result =
     (case read_prop result ''keyPoints'' of Inl m \<Rightarrow> Inl m | Inr kp \<Rightarrow>
     (case read_prop result ''definitions'' of Inl m \<Rightarrow> Inl m | Inr ds \<Rightarrow>
     (case read_prop result ''formulas'' of Inl m \<Rightarrow> Inl m | Inr fs \<Rightarrow>
     (case read_prop result ''mainConcepts'' of Inl m \<Rightarrow> Inl m | Inr mc \<Rightarrow>
     (case read_prop result ''fullSummary'' of Inl m \<Rightarrow> Inl m | Inr fu \<Rightarrow>
        Inr \<lparr>keyPoints = or_else kp (JArr []),
             definitions = or_else ds (JArr []),
             formulas = or_else fs (JArr []),
             mainConcepts = or_else mc (JArr []),
             fullSummary = or_else fu (JStr ''Summary not available.'')\<rparr>)))))"

definition summarizeContent ::
  "(summary_prompt \<Rightarrow> completion) \<Rightarrow> string \<Rightarrow> string \<Rightarrow> error + SummaryResult" where
  "summarizeContent llm content title =
     (case parsed (llm (summarizePrompt content title)) of
        Inl m \<Rightarrow> Inl (Error (''Failed to generate summary: '' @ message_of m))
      | Inr result \<Rightarrow>
          (case summary_of result of
             Inl m \<Rightarrow> Inl (Error (''Failed to generate summary: '' @ m))
           | Inr s \<Rightarrow> Inr s))"

subsection \<open>generateFlashcards\<close>

record flashcards_prompt =
  fp_count :: int
  fp_content :: string

text \<open>
  \<^verbatim>\<open>count: number = 10\<close>: an argument left out is 10. The prompt carries
  \<^verbatim>\<open>finalCount\<close> (twice) and the first 2000 code units of the content.
\<close>

definition flashcardsPrompt :: "string \<Rightarrow> int option \<Rightarrow> flashcards_prompt" where
  "flashcardsPrompt content count =
     (let finalCount = min (case count of None \<Rightarrow> 10 | Some c \<Rightarrow> c) 10
      in \<lparr>fp_count = finalCount, fp_content = substring0 content 2000\<rparr>)"

definition generateFlashcards ::
  "(flashcards_prompt \<Rightarrow> completion) \<Rightarrow> string \<Rightarrow> int option \<Rightarrow> error + json" where
  "generateFlashcards llm content count =
     (case parsed (llm (flashcardsPrompt content count)) of
        Inl m \<Rightarrow> Inl (Error (''Failed to generate flashcards: '' @ message_of m))
      | Inr result \<Rightarrow>
          (case read_prop result ''flashcards'' of
             Inl m \<Rightarrow> Inl (Error (''Failed to generate flashcards: '' @ m))
           | Inr v \<Rightarrow> Inr (or_else v (JArr []))))"

text \<open>The number of flashcards in what the function returned.\<close>

fun cards :: "error + json \<Rightarrow> nat" where
  "cards (Inr (JArr xs)) = length xs"
| "cards r = 0"

definition card_json :: "string \<Rightarrow> string \<Rightarrow> json" where
  "card_json f b = JObj [(''front'', JStr f), (''back'', JStr b)]"

text \<open>A provider that answers every prompt with the same eleven flashcards.\<close>

definition eleven :: "flashcards_prompt \<Rightarrow> completion" where
  "eleven p = Json (JObj [(''flashcards'', JArr (replicate 11 (card_json ''q'' ''a'')))])"

section \<open>The data model\<close>

text \<open>
  The row types of \<^verbatim>\<open>shared/schema.ts\<close>. A column without
  \<^verbatim>\<open>notNull()\<close> has the type \<^verbatim>\<open>T | null\<close>, here \<open>T option\<close>
  (a property the in-memory store leaves out of an object is \<open>None\<close> too). A
  timestamp is its \<^verbatim>\<open>getTime()\<close>. A counter is an integer: in the tables an
  \<^verbatim>\<open>integer\<close> column holds 32 bits, in the maps it is a number whose value is an
  integer, on which the arithmetic is that of doubles (see \<open>js_add\<close>).
\<close>

type_synonym timestamp = int

record Subject =
  s_id :: string
  s_name :: string
  s_icon :: "string option"
  s_color :: "string option"
  s_notesCount :: "int option"
  s_flashcardsCount :: "int option"
  s_questionsCount :: "int option"
  s_lastAccessed :: "timestamp option"

record Note =
  n_id :: string
  n_subjectId :: string
  n_title :: string
  n_content :: string
  n_fileType :: "string option"
  n_fileName :: "string option"
  n_createdAt :: timestamp

record Summary =
  sm_id :: string
  sm_noteId :: string
  sm_subjectId :: string
  sm_title :: string
  sm_keyPoints :: "string list"
  sm_definitions :: "(string \<times> string) list"
  sm_formulas :: "string list"
  sm_mainConcepts :: "string list"
  sm_fullSummary :: string
  sm_createdAt :: timestamp

record Flashcard =
  f_id :: string
  f_subjectId :: string
  f_summaryId :: "string option"
  f_front :: string
  f_back :: string
  f_difficulty :: "string option"
  f_lastReviewed :: "timestamp option"
  f_timesReviewed :: "int option"

record Question =
  q_id :: string
  q_subjectId :: string
  q_summaryId :: "string option"
  q_type :: string
  q_question :: string
  q_options :: "string list option"
  q_answer :: string
  q_explanation :: "string option"
  q_difficulty :: "string option"

datatype priority = High | Medium | Low

record StudyTask =
  t_id :: string
  t_topic :: string
  t_subject :: string
  t_duration :: string
  t_priority :: priority
  t_completed :: bool
  t_date :: string
  t_timeSlot :: "string option"

record StudyPlan =
  p_id :: string
  p_title :: string
  p_description :: string
  p_startDate :: string
  p_endDate :: string
  p_tasks :: "StudyTask list"
  p_createdAt :: timestamp

text \<open>
  A property of an insert record declared \<^verbatim>\<open>?: T | null\<close> is left out, null
  or given.
\<close>

datatype 'a optional = Omitted | Null | Given 'a

record InsertSubject =
  is_name :: string
  is_icon :: "string optional"
  is_color :: "string optional"

record InsertNote =
  in_subjectId :: string
  in_title :: string
  in_content :: string
  in_fileType :: "string optional"
  in_fileName :: "string optional"

record InsertFlashcard =
  if_subjectId :: string
  if_summaryId :: "string optional"
  if_front :: string
  if_back :: string
  if_difficulty :: "string optional"

text \<open>
  \<^verbatim>\<open>Partial<T>\<close>: every property may be left out (\<open>None\<close>).
\<close>

record Partial_Flashcard =
  pf_id :: "string option"
  pf_subjectId :: "string option"
  pf_summaryId :: "string option option"
  pf_front :: "string option"
  pf_back :: "string option"
  pf_difficulty :: "string option option"
  pf_lastReviewed :: "timestamp option option"
  pf_timesReviewed :: "int option option"

record Partial_StudyTask =
  pt_id :: "string option"
  pt_topic :: "string option"
  pt_subject :: "string option"
  pt_duration :: "string option"
  pt_priority :: "priority option"
  pt_completed :: "bool option"
  pt_date :: "string option"
  pt_timeSlot :: "string option"

record DashboardStats =
  totalSubjects :: nat
  totalNotes :: nat
  totalFlashcards :: nat
  totalQuestions :: nat
  studyStreak :: nat
  recentSummaries :: "Summary list"
  upcomingTasks :: "StudyTask list"

section \<open>JavaScript operators on these values\<close>

text \<open>
  \<^verbatim>\<open>c + 1\<close> and \<^verbatim>\<open>c - 1\<close> on a \<^verbatim>\<open>number | null\<close> convert null
  to 0.
\<close>

fun to_num :: "int option \<Rightarrow> int" where
  "to_num None = 0"
| "to_num (Some n) = n"

text \<open>
  \<^verbatim>\<open>a + b\<close> on two numbers whose values are integers: the sum, rounded to the
  nearest double (53 bits of significand, a tie going to the even one). It is exact up
  to \<open>2\<^sup>5\<^sup>3\<close> in size; \<open>2\<^sup>5\<^sup>3 + 1\<close> is \<open>2\<^sup>5\<^sup>3\<close> again.
  \<^verbatim>\<open>c - 1\<close> is \<open>js_add c (- 1)\<close>.
\<close>

fun bits :: "nat \<Rightarrow> nat" where
  "bits n = (if n = 0 then 0 else Suc (bits (n div 2)))"

declare bits.simps [simp del]

definition to_double :: "int \<Rightarrow> int" where
  "to_double n =
     (let q = 2 ^ (bits (nat \<bar>n\<bar>) - 53); d = n div q; r = n mod q
      in if 2 * r < q \<or> (2 * r = q \<and> even d) then d * q else (d + 1) * q)"

definition js_add :: "int \<Rightarrow> int \<Rightarrow> int" where
  "js_add a b = to_double (a + b)"

text \<open>\<^verbatim>\<open>c || 0\<close> on a \<^verbatim>\<open>number | null\<close>.\<close>

fun or0 :: "int option \<Rightarrow> int" where
  "or0 None = 0"
| "or0 (Some n) = (if n = 0 then 0 else n)"

text \<open>
  \<^verbatim>\<open>s || d\<close> on an optional string: left out, null and the empty string are falsy.
\<close>

fun or_string :: "string optional \<Rightarrow> string \<Rightarrow> string" where
  "or_string (Given s) d = (if s = [] then d else s)"
| "or_string v d = d"

text \<open>A property copied as it is: left out and null both read as \<open>None\<close>.\<close>

fun nullable :: "'a optional \<Rightarrow> 'a option" where
  "nullable (Given v) = Some v"
| "nullable v = None"

text \<open>
  The condition \<^verbatim>\<open>if (subjectId)\<close> on a \<^verbatim>\<open>string | undefined\<close>.
\<close>

fun given :: "string option \<Rightarrow> bool" where
  "given None = False"
| "given (Some s) = (s \<noteq> [])"

text \<open>
  One property of \<^verbatim>\<open>{...old, ...data}\<close>: the value of \<^verbatim>\<open>data\<close> when it
  has the property.
\<close>

fun over :: "'a \<Rightarrow> 'a option \<Rightarrow> 'a" where
  "over old None = old"
| "over old (Some v) = v"

definition spread_Flashcard :: "Flashcard \<Rightarrow> Partial_Flashcard \<Rightarrow> Flashcard" where
  "spread_Flashcard f d =
     \<lparr>f_id = over (f_id f) (pf_id d),
      f_subjectId = over (f_subjectId f) (pf_subjectId d),
      f_summaryId = over (f_summaryId f) (pf_summaryId d),
      f_front = over (f_front f) (pf_front d),
      f_back = over (f_back f) (pf_back d),
      f_difficulty = over (f_difficulty f) (pf_difficulty d),
      f_lastReviewed = over (f_lastReviewed f) (pf_lastReviewed d),
      f_timesReviewed = over (f_timesReviewed f) (pf_timesReviewed d)\<rparr>"

definition spread_StudyTask :: "StudyTask \<Rightarrow> Partial_StudyTask \<Rightarrow> StudyTask" where
  "spread_StudyTask t d =
     \<lparr>t_id = over (t_id t) (pt_id d),
      t_topic = over (t_topic t) (pt_topic d),
      t_subject = over (t_subject t) (pt_subject d),
      t_duration = over (t_duration t) (pt_duration d),
      t_priority = over (t_priority t) (pt_priority d),
      t_completed = over (t_completed t) (pt_completed d),
      t_date = over (t_date t) (pt_date d),
      t_timeSlot = (case pt_timeSlot d of None \<Rightarrow> t_timeSlot t | Some v \<Rightarrow> Some v)\<rparr>"

text \<open>
  \<^verbatim>\<open>xs.sort(cmp)\<close>: the sort of the language is stable, and a stable insertion
  sort gives its result for every comparator that orders the elements consistently.
\<close>

fun insert_by :: "('a \<Rightarrow> 'a \<Rightarrow> int) \<Rightarrow> 'a \<Rightarrow> 'a list \<Rightarrow> 'a list" where
  "insert_by cmp x [] = [x]"
| "insert_by cmp x (y # ys) =
     (if cmp x y \<le> 0 then x # y # ys else y # insert_by cmp x ys)"

definition js_sort :: "('a \<Rightarrow> 'a \<Rightarrow> int) \<Rightarrow> 'a list \<Rightarrow> 'a list" where
  "js_sort cmp xs = foldr (insert_by cmp) xs []"

text \<open>
  \<^verbatim>\<open>[...new Set(xs)]\<close>: the distinct elements in the order of their first
  occurrence.
\<close>

definition set_add :: "'a list \<Rightarrow> 'a \<Rightarrow> 'a list" where
  "set_add s x = (if x \<in> set s then s else s @ [x])"

definition new_Set :: "'a list \<Rightarrow> 'a list" where
  "new_Set xs = foldl set_add [] xs"

text \<open>\<^verbatim>\<open>const [x] = rows\<close>\<close>

fun first_row :: "'a list \<Rightarrow> 'a option" where
  "first_row [] = None"
| "first_row (x # xs) = Some x"

section \<open>A JavaScript Map\<close>

text \<open>
  The entries in insertion order. \<^verbatim>\<open>set\<close> on a key that is there replaces the
  value where it stands, on a new key it appends.
\<close>

type_synonym 'v js_map = "(string \<times> 'v) list"

definition map_get :: "'v js_map \<Rightarrow> string \<Rightarrow> 'v option" where
  "map_get m k = map_of m k"

fun map_set :: "'v js_map \<Rightarrow> string \<Rightarrow> 'v \<Rightarrow> 'v js_map" where
  "map_set [] k v = [(k, v)]"
| "map_set (e # es) k v = (if fst e = k then (k, v) # es else e # map_set es k v)"

definition map_delete :: "'v js_map \<Rightarrow> string \<Rightarrow> 'v js_map" where
  "map_delete m k = filter (\<lambda>e. fst e \<noteq> k) m"

definition map_has :: "'v js_map \<Rightarrow> string \<Rightarrow> bool" where
  "map_has m k = (k \<in> fst ` set m)"

definition map_values :: "'v js_map \<Rightarrow> 'v list" where
  "map_values m = map snd m"

text \<open>
  \<^verbatim>\<open>for (const [k, v] of m) if (p(v)) m.delete(k)\<close>: the loop visits the entries
  that were there when it started (deleting the entry under the cursor does not disturb
  the iterator), and each deletion acts on the map as it is by then.
\<close>

fun delete_loop :: "('v \<Rightarrow> bool) \<Rightarrow> 'v js_map \<Rightarrow> 'v js_map \<Rightarrow> 'v js_map" where
  "delete_loop p [] m = m"
| "delete_loop p (e # es) m =
     delete_loop p es (if p (snd e) then map_delete m (fst e) else m)"

section \<open>MemStorage\<close>

text \<open>
  The six private maps. Every method takes the store and returns it updated;
  \<^verbatim>\<open>randomUUID()\<close> and \<^verbatim>\<open>new Date()\<close> are arguments (the clock reads of
  one call are one instant).
\<close>

record MemStorage =
  m_subjects :: "Subject js_map"
  m_notes :: "Note js_map"
  m_summaries :: "Summary js_map"
  m_flashcards :: "Flashcard js_map"
  m_questions :: "Question js_map"
  m_studyPlans :: "StudyPlan js_map"

definition mem_getSubject :: "MemStorage \<Rightarrow> string \<Rightarrow> Subject option" where
  "mem_getSubject st ident = map_get (m_subjects st) ident"

definition mem_createSubject ::
  "MemStorage \<Rightarrow> string \<Rightarrow> timestamp \<Rightarrow> InsertSubject \<Rightarrow> Subject \<times> MemStorage" where
  "mem_createSubject st ident now data =
     (let subject =
        \<lparr>s_id = ident,
         s_name = is_name data,
         s_icon = Some (or_string (is_icon data) ''book''),
         s_color = Some (or_string (is_color data) ''blue''),
         s_notesCount = Some 0,
         s_flashcardsCount = Some 0,
         s_questionsCount = Some 0,
         s_lastAccessed = Some now\<rparr>
      in (subject, st\<lparr>m_subjects := map_set (m_subjects st) ident subject\<rparr>))"

definition mem_deleteSubject :: "MemStorage \<Rightarrow> string \<Rightarrow> bool \<times> MemStorage" where
  "mem_deleteSubject st ident =
     (let st1 = st\<lparr>m_notes := delete_loop (\<lambda>note. n_subjectId note = ident) (m_notes st) (m_notes st)\<rparr>;
          st2 = st1\<lparr>m_summaries :=
                  delete_loop (\<lambda>summary. sm_subjectId summary = ident) (m_summaries st1) (m_summaries st1)\<rparr>;
          st3 = st2\<lparr>m_flashcards :=
                  delete_loop (\<lambda>flashcard. f_subjectId flashcard = ident) (m_flashcards st2) (m_flashcards st2)\<rparr>;
          st4 = st3\<lparr>m_questions :=
                  delete_loop (\<lambda>question. q_subjectId question = ident) (m_questions st3) (m_questions st3)\<rparr>
      in (map_has (m_subjects st4) ident, st4\<lparr>m_subjects := map_delete (m_subjects st4) ident\<rparr>))"

definition mem_getNotes :: "MemStorage \<Rightarrow> string option \<Rightarrow> Note list" where
  "mem_getNotes st subjectId =
     (let ns = map_values (m_notes st)
      in case subjectId of
           Some sid \<Rightarrow> if given subjectId then filter (\<lambda>n. n_subjectId n = sid) ns else ns
         | None \<Rightarrow> ns)"

definition mem_createNote ::
  "MemStorage \<Rightarrow> string \<Rightarrow> timestamp \<Rightarrow> InsertNote \<Rightarrow> Note \<times> MemStorage" where
  "mem_createNote st ident now data =
     (let note =
        \<lparr>n_id = ident,
         n_subjectId = in_subjectId data,
         n_title = in_title data,
         n_content = in_content data,
         n_fileType = Some (or_string (in_fileType data) ''text''),
         n_fileName = nullable (in_fileName data),
         n_createdAt = now\<rparr>;
          st1 = st\<lparr>m_notes := map_set (m_notes st) ident note\<rparr>
      in case map_get (m_subjects st1) (in_subjectId data) of
           Some subject \<Rightarrow>
             (note, st1\<lparr>m_subjects := map_set (m_subjects st1) (in_subjectId data)
                (subject\<lparr>s_notesCount := Some (js_add (to_num (s_notesCount subject)) 1),
                         s_lastAccessed := Some now\<rparr>)\<rparr>)
         | None \<Rightarrow> (note, st1))"

definition mem_deleteNote :: "MemStorage \<Rightarrow> string \<Rightarrow> bool \<times> MemStorage" where
  "mem_deleteNote st ident =
     (let st1 =
        (case map_get (m_notes st) ident of
           Some note \<Rightarrow>
             (case map_get (m_subjects st) (n_subjectId note) of
                Some subject \<Rightarrow>
                  st\<lparr>m_subjects := map_set (m_subjects st) (n_subjectId note)
                    (subject\<lparr>s_notesCount :=
                       Some (max 0 (js_add (to_num (s_notesCount subject)) (- 1)))\<rparr>)\<rparr>
              | None \<Rightarrow> st)
         | None \<Rightarrow> st)
      in (map_has (m_notes st1) ident, st1\<lparr>m_notes := map_delete (m_notes st1) ident\<rparr>))"

definition mem_getSummaries :: "MemStorage \<Rightarrow> string option \<Rightarrow> Summary list" where
  "mem_getSummaries st subjectId =
     (let ss = map_values (m_summaries st);
          ordered = js_sort (\<lambda>a b. sm_createdAt b - sm_createdAt a) ss
      in case subjectId of
           Some sid \<Rightarrow> if given subjectId then filter (\<lambda>s. sm_subjectId s = sid) ss else ordered
         | None \<Rightarrow> ordered)"

definition mem_getFlashcards :: "MemStorage \<Rightarrow> string option \<Rightarrow> Flashcard list" where
  "mem_getFlashcards st subjectId =
     (let fs = map_values (m_flashcards st)
      in case subjectId of
           Some sid \<Rightarrow>
             if given subjectId \<and> sid \<noteq> ''all'' then filter (\<lambda>f. f_subjectId f = sid) fs
             else fs
         | None \<Rightarrow> fs)"

definition mem_getFlashcard :: "MemStorage \<Rightarrow> string \<Rightarrow> Flashcard option" where
  "mem_getFlashcard st ident = map_get (m_flashcards st) ident"

definition mem_createFlashcard ::
  "MemStorage \<Rightarrow> string \<Rightarrow> InsertFlashcard \<Rightarrow> Flashcard \<times> MemStorage" where
  "mem_createFlashcard st ident data =
     (let flashcard =
        \<lparr>f_id = ident,
         f_subjectId = if_subjectId data,
         f_summaryId = nullable (if_summaryId data),
         f_front = if_front data,
         f_back = if_back data,
         f_difficulty = Some (or_string (if_difficulty data) ''medium''),
         f_lastReviewed = None,
         f_timesReviewed = Some 0\<rparr>;
          st1 = st\<lparr>m_flashcards := map_set (m_flashcards st) ident flashcard\<rparr>
      in case map_get (m_subjects st1) (if_subjectId data) of
           Some subject \<Rightarrow>
             (flashcard, st1\<lparr>m_subjects := map_set (m_subjects st1) (if_subjectId data)
                (subject\<lparr>s_flashcardsCount :=
                           Some (js_add (to_num (s_flashcardsCount subject)) 1)\<rparr>)\<rparr>)
         | None \<Rightarrow> (flashcard, st1))"

text \<open>
  The loop of \<^verbatim>\<open>createFlashcards\<close>: the k-th item gets the k-th identifier that
  \<^verbatim>\<open>randomUUID()\<close> returns; the list of identifiers is as long as the batch.
\<close>

fun mem_createFlashcards ::
  "MemStorage \<Rightarrow> string list \<Rightarrow> InsertFlashcard list \<Rightarrow> Flashcard list \<times> MemStorage" where
  "mem_createFlashcards st (i # ids) (item # data) =
     (let (flashcard, st1) = mem_createFlashcard st i item;
          (rest, st2) = mem_createFlashcards st1 ids data
      in (flashcard # rest, st2))"
| "mem_createFlashcards st ids data = ([], st)"

definition mem_updateFlashcard ::
  "MemStorage \<Rightarrow> timestamp \<Rightarrow> string \<Rightarrow> Partial_Flashcard \<Rightarrow> Flashcard option \<times> MemStorage" where
  "mem_updateFlashcard st now ident data =
     (case map_get (m_flashcards st) ident of
        None \<Rightarrow> (None, st)
      | Some flashcard \<Rightarrow>
          (let updated = (spread_Flashcard flashcard data)
                 \<lparr>f_lastReviewed := Some now,
                  f_timesReviewed := Some (js_add (to_num (f_timesReviewed flashcard)) 1)\<rparr>
           in (Some updated, st\<lparr>m_flashcards := map_set (m_flashcards st) ident updated\<rparr>)))"

definition mem_getQuestions :: "MemStorage \<Rightarrow> string option \<Rightarrow> Question list" where
  "mem_getQuestions st subjectId =
     (let qs = map_values (m_questions st)
      in case subjectId of
           Some sid \<Rightarrow>
             if given subjectId \<and> sid \<noteq> ''all'' then filter (\<lambda>q. q_subjectId q = sid) qs
             else qs
         | None \<Rightarrow> qs)"

definition mem_getStudyPlans :: "MemStorage \<Rightarrow> StudyPlan list" where
  "mem_getStudyPlans st =
     js_sort (\<lambda>a b. p_createdAt b - p_createdAt a) (map_values (m_studyPlans st))"

definition mem_getStudyPlan :: "MemStorage \<Rightarrow> string \<Rightarrow> StudyPlan option" where
  "mem_getStudyPlan st ident = map_get (m_studyPlans st) ident"

definition mem_updateStudyPlanTask ::
  "MemStorage \<Rightarrow> string \<Rightarrow> string \<Rightarrow> Partial_StudyTask \<Rightarrow> StudyPlan option \<times> MemStorage" where
  "mem_updateStudyPlanTask st planId taskId data =
     (case map_get (m_studyPlans st) planId of
        None \<Rightarrow> (None, st)
      | Some plan \<Rightarrow>
          (let updatedTasks =
                 map (\<lambda>t. if t_id t = taskId then spread_StudyTask t data else t) (p_tasks plan);
               updatedPlan = plan\<lparr>p_tasks := updatedTasks\<rparr>
           in (Some updatedPlan, st\<lparr>m_studyPlans := map_set (m_studyPlans st) planId updatedPlan\<rparr>)))"

text \<open>
  The two nested loops of the dashboard, pushing onto \<^verbatim>\<open>upcomingTasks\<close>.
  \<^verbatim>\<open>task.date >= today\<close> compares two strings code unit by code unit.
\<close>

definition push_upcoming :: "string \<Rightarrow> StudyTask list \<Rightarrow> StudyTask \<Rightarrow> StudyTask list" where
  "push_upcoming today acc task =
     (if \<not> t_completed task \<and> today \<le> t_date task then acc @ [task] else acc)"

definition collect_upcoming :: "string \<Rightarrow> StudyPlan list \<Rightarrow> StudyTask list" where
  "collect_upcoming today plans =
     foldl (\<lambda>acc plan. foldl (push_upcoming today) acc (p_tasks plan)) [] plans"

text \<open>
  \<^verbatim>\<open>localeCompare\<close> is the collation of the host's locale, an argument here;
  \<open>today\<close> is \<^verbatim>\<open>new Date().toISOString().split('T')[0]\<close>.
\<close>

definition mem_getDashboardStats ::
  "(string \<Rightarrow> string \<Rightarrow> int) \<Rightarrow> string \<Rightarrow> MemStorage \<Rightarrow> DashboardStats" where
  "mem_getDashboardStats localeCompare today st =
     (let recent = mem_getSummaries st None;
          plans = mem_getStudyPlans st;
          upcoming = js_sort (\<lambda>a b. localeCompare (t_date a) (t_date b))
                       (collect_upcoming today plans)
      in \<lparr>totalSubjects = length (m_subjects st),
          totalNotes = length (m_notes st),
          totalFlashcards = length (m_flashcards st),
          totalQuestions = length (m_questions st),
          studyStreak = 0,
          recentSummaries = take 5 recent,
          upcomingTasks = take 5 upcoming\<rparr>)"

section \<open>The task route\<close>

text \<open>
  \<^verbatim>\<open>PATCH /api/study-plans/:planId/tasks/:taskId\<close> over the in-memory store, whose
  methods never throw (so the 500 branch of the handler is not taken).
  \<^verbatim>\<open>res.json\<close> without \<^verbatim>\<open>res.status\<close> answers 200.
\<close>

datatype body = ErrorBody string | PlanBody StudyPlan

record response =
  res_status :: nat
  res_json :: body

definition patch_task ::
  "MemStorage \<Rightarrow> string \<Rightarrow> string \<Rightarrow> Partial_StudyTask \<Rightarrow> response \<times> MemStorage" where
  "patch_task st planId taskId reqBody =
     (case mem_updateStudyPlanTask st planId taskId reqBody of
        (None, st') \<Rightarrow> (\<lparr>res_status = 404, res_json = ErrorBody ''Plan or task not found''\<rparr>, st')
      | (Some plan, st') \<Rightarrow> (\<lparr>res_status = 200, res_json = PlanBody plan\<rparr>, st'))"

section \<open>DatabaseStorage\<close>

text \<open>
  The tables, each the list of its rows. The relational engine is outside the
  repository; its statements are read as what they mean: \<^verbatim>\<open>select ... where\<close>
  filters, \<^verbatim>\<open>insert\<close> appends the rows with the identifiers the database
  draws, \<^verbatim>\<open>update ... where\<close> rewrites the matching rows, \<^verbatim>\<open>delete ... where\<close>
  drops them, a write that would leave two rows with one primary key fails, and so
  does an insert of no rows, which the query builder refuses. The engine does not
  promise an order of the rows it returns: the list is the table in one order, and what
  is stated of a table after a write is stated of its rows, not of their order.
  Identifiers are plain strings, except in \<open>createFlashcards\<close>, where the values of
  the \<^verbatim>\<open>uuid\<close> columns go through the engine's input routine and the counter
  through the range of its column.
\<close>

record DatabaseStorage =
  db_subjects :: "Subject list"
  db_notes :: "Note list"
  db_summaries :: "Summary list"
  db_flashcards :: "Flashcard list"
  db_questions :: "Question list"
  db_studyPlans :: "StudyPlan list"

datatype db_error = UniqueViolation | NoValues | Refused | InvalidUuid | OutOfRange

text \<open>What an \<^verbatim>\<open>integer\<close> column can hold.\<close>

definition int4 :: "int \<Rightarrow> bool" where
  "int4 n = (- 2147483648 \<le> n \<and> n \<le> 2147483647)"

definition db_deleteSubject :: "DatabaseStorage \<Rightarrow> string \<Rightarrow> bool \<times> DatabaseStorage" where
  "db_deleteSubject db ident =
     (let db1 = db\<lparr>db_notes := filter (\<lambda>n. n_subjectId n \<noteq> ident) (db_notes db)\<rparr>;
          db2 = db1\<lparr>db_summaries := filter (\<lambda>s. sm_subjectId s \<noteq> ident) (db_summaries db1)\<rparr>;
          db3 = db2\<lparr>db_flashcards := filter (\<lambda>f. f_subjectId f \<noteq> ident) (db_flashcards db2)\<rparr>;
          db4 = db3\<lparr>db_questions := filter (\<lambda>q. q_subjectId q \<noteq> ident) (db_questions db3)\<rparr>;
          deleted = first_row (filter (\<lambda>s. s_id s = ident) (db_subjects db4))
      in (deleted \<noteq> None, db4\<lparr>db_subjects := filter (\<lambda>s. s_id s \<noteq> ident) (db_subjects db4)\<rparr>))"

definition db_getNotes :: "DatabaseStorage \<Rightarrow> string option \<Rightarrow> Note list" where
  "db_getNotes db subjectId =
     (case subjectId of
        Some sid \<Rightarrow>
          if given subjectId then filter (\<lambda>n. n_subjectId n = sid) (db_notes db) else db_notes db
      | None \<Rightarrow> db_notes db)"

text \<open>
  \<^verbatim>\<open>orderBy(desc(createdAt))\<close>; rows of one instant stay in table order.
\<close>

definition db_getSummaries :: "DatabaseStorage \<Rightarrow> string option \<Rightarrow> Summary list" where
  "db_getSummaries db subjectId =
     (let ordered = js_sort (\<lambda>a b. sm_createdAt b - sm_createdAt a) (db_summaries db)
      in case subjectId of
           Some sid \<Rightarrow>
             if given subjectId then filter (\<lambda>s. sm_subjectId s = sid) (db_summaries db)
             else ordered
         | None \<Rightarrow> ordered)"

definition db_getFlashcards :: "DatabaseStorage \<Rightarrow> string option \<Rightarrow> Flashcard list" where
  "db_getFlashcards db subjectId =
     (case subjectId of
        Some sid \<Rightarrow>
          if given subjectId \<and> sid \<noteq> ''all''
          then filter (\<lambda>f. f_subjectId f = sid) (db_flashcards db)
          else db_flashcards db
      | None \<Rightarrow> db_flashcards db)"

definition db_getFlashcard :: "DatabaseStorage \<Rightarrow> string \<Rightarrow> Flashcard option" where
  "db_getFlashcard db ident = first_row (filter (\<lambda>f. f_id f = ident) (db_flashcards db))"

definition db_getQuestions :: "DatabaseStorage \<Rightarrow> string option \<Rightarrow> Question list" where
  "db_getQuestions db subjectId =
     (case subjectId of
        Some sid \<Rightarrow>
          if given subjectId \<and> sid \<noteq> ''all''
          then filter (\<lambda>q. q_subjectId q = sid) (db_questions db)
          else db_questions db
      | None \<Rightarrow> db_questions db)"

text \<open>
  A value written to or compared with a \<^verbatim>\<open>uuid\<close> column goes through the engine's
  input routine, an argument here (\<open>uuid_in\<close>): it refuses a string that is not the text
  of a UUID (\<open>None\<close>), and otherwise gives the text the engine prints for that UUID, under
  which the value is stored and compared.
\<close>

definition uuid_columns :: "(string \<Rightarrow> string option) \<Rightarrow> InsertFlashcard \<Rightarrow> bool" where
  "uuid_columns uuid_in f =
     (uuid_in (if_subjectId f) \<noteq> None
      \<and> (case if_summaryId f of Given s \<Rightarrow> uuid_in s \<noteq> None | _ \<Rightarrow> True))"

definition printed :: "(string \<Rightarrow> string option) \<Rightarrow> string \<Rightarrow> string" where
  "printed uuid_in s = (case uuid_in s of Some c \<Rightarrow> c | None \<Rightarrow> s)"

text \<open>
  The row an insert record becomes: the database draws the identifier, a column left
  out takes its default (\<^verbatim>\<open>"medium"\<close>, 0, or null where there is none), a null
  given is stored.
\<close>

fun or_default :: "'a optional \<Rightarrow> 'a option \<Rightarrow> 'a option" where
  "or_default Omitted d = d"
| "or_default Null d = None"
| "or_default (Given v) d = Some v"

definition flashcard_row :: "(string \<Rightarrow> string option) \<Rightarrow> string \<Rightarrow> InsertFlashcard \<Rightarrow> Flashcard" where
  "flashcard_row uuid_in ident data =
     \<lparr>f_id = ident,
      f_subjectId = printed uuid_in (if_subjectId data),
      f_summaryId = map_option (printed uuid_in) (or_default (if_summaryId data) None),
      f_front = if_front data,
      f_back = if_back data,
      f_difficulty = or_default (if_difficulty data) (Some ''medium''),
      f_lastReviewed = None,
      f_timesReviewed = Some 0\<rparr>"

text \<open>
  One round of the loop over \<^verbatim>\<open>subjectIds\<close>. The count is taken by
  \<^verbatim>\<open>===\<close> on the strings of the batch, the subject is found by the engine's
  comparison of UUIDs. The sum is a sum of doubles, exact on a stored 32-bit count and
  the size of a batch; the update raises when the column cannot hold it.
\<close>

definition db_add_flashcards ::
  "(string \<Rightarrow> string option) \<Rightarrow> InsertFlashcard list \<Rightarrow> DatabaseStorage \<Rightarrow> string \<Rightarrow>
     db_error + DatabaseStorage" where
  "db_add_flashcards uuid_in insertFlashcards db subId =
     (let count = length (filter (\<lambda>f. if_subjectId f = subId) insertFlashcards)
      in case first_row (filter (\<lambda>s. s_id s = printed uuid_in subId) (db_subjects db)) of
           Some subject \<Rightarrow>
             if int4 (or0 (s_flashcardsCount subject) + int count)
             then Inr (db\<lparr>db_subjects :=
                    map (\<lambda>s. if s_id s = printed uuid_in subId
                              then s\<lparr>s_flashcardsCount :=
                                       Some (or0 (s_flashcardsCount subject) + int count)\<rparr>
                              else s)
                        (db_subjects db)\<rparr>)
             else Inl OutOfRange
         | None \<Rightarrow> Inr db)"

text \<open>
  The loop itself: the first round that raises ends it, and what the earlier rounds
  and the insert wrote stays written (there is no transaction).
\<close>

fun db_count_loop ::
  "(string \<Rightarrow> string option) \<Rightarrow> InsertFlashcard list \<Rightarrow> DatabaseStorage \<Rightarrow> string list \<Rightarrow>
     db_error option \<times> DatabaseStorage" where
  "db_count_loop uuid_in insertFlashcards db [] = (None, db)"
| "db_count_loop uuid_in insertFlashcards db (subId # subjectIds) =
     (case db_add_flashcards uuid_in insertFlashcards db subId of
        Inl e \<Rightarrow> (Some e, db)
      | Inr db' \<Rightarrow> db_count_loop uuid_in insertFlashcards db' subjectIds)"

text \<open>
  \<open>createFlashcards\<close> returns the rows or raises, and leaves the tables as they are by
  then. Whether the engine and its driver take the insert statement at all (its size,
  the encoding of its texts) is theirs to say, and an argument here (\<open>accepts\<close>).
\<close>

definition db_createFlashcards ::
  "(string \<Rightarrow> string option) \<Rightarrow> (InsertFlashcard list \<Rightarrow> bool) \<Rightarrow> DatabaseStorage \<Rightarrow>
     string list \<Rightarrow> InsertFlashcard list \<Rightarrow> (db_error + Flashcard list) \<times> DatabaseStorage" where
  "db_createFlashcards uuid_in accepts db ids insertFlashcards =
     (let createdFlashcards =
            map (\<lambda>(i, item). flashcard_row uuid_in i item) (zip ids insertFlashcards);
          rows = db_flashcards db @ createdFlashcards
      in if insertFlashcards = [] then (Inl NoValues, db)
         else if \<not> accepts insertFlashcards then (Inl Refused, db)
         else if \<not> list_all (uuid_columns uuid_in) insertFlashcards then (Inl InvalidUuid, db)
         else if \<not> distinct (map f_id rows) then (Inl UniqueViolation, db)
         else
           (let db1 = db\<lparr>db_flashcards := rows\<rparr>;
                subjectIds = new_Set (map if_subjectId insertFlashcards)
            in case db_count_loop uuid_in insertFlashcards db1 subjectIds of
                 (Some e, db2) \<Rightarrow> (Inl e, db2)
               | (None, db2) \<Rightarrow> (Inr createdFlashcards, db2)))"

text \<open>\<^verbatim>\<open>data.timesReviewed\<close>, undefined and null alike \<open>None\<close>.\<close>

fun flat :: "'a option option \<Rightarrow> 'a option" where
  "flat None = None"
| "flat (Some v) = v"

definition db_updateFlashcard ::
  "DatabaseStorage \<Rightarrow> timestamp \<Rightarrow> string \<Rightarrow> Partial_Flashcard \<Rightarrow>
     db_error + Flashcard option \<times> DatabaseStorage" where
  "db_updateFlashcard db now ident data =
     (let change = (\<lambda>f. (spread_Flashcard f data)
                     \<lparr>f_lastReviewed := Some now,
                      f_timesReviewed := Some (or0 (flat (pf_timesReviewed data)) + 1)\<rparr>);
          rows = map (\<lambda>f. if f_id f = ident then change f else f) (db_flashcards db);
          returning = map change (filter (\<lambda>f. f_id f = ident) (db_flashcards db))
      in if \<not> distinct (map f_id rows) then Inl UniqueViolation
         else Inr (first_row returning, db\<lparr>db_flashcards := rows\<rparr>))"



text \<open>
  The rows a store holds, in insertion order: what the in-memory store and the tables
  are compared on.
\<close>

definition rows_of :: "MemStorage \<Rightarrow> DatabaseStorage" where
  "rows_of st =
     \<lparr>db_subjects = map_values (m_subjects st),
      db_notes = map_values (m_notes st),
      db_summaries = map_values (m_summaries st),
      db_flashcards = map_values (m_flashcards st),
      db_questions = map_values (m_questions st),
      db_studyPlans = map_values (m_studyPlans st)\<rparr>"

text \<open>Every entry of a map stands under the identifier of its value, once.\<close>

definition keyed :: "('v \<Rightarrow> string) \<Rightarrow> 'v js_map \<Rightarrow> bool" where
  "keyed ident m = (distinct (map fst m) \<and> list_all (\<lambda>e. ident (snd e) = fst e) m)"

section \<open>Runs of calls, and the vocabulary of the proofs\<close>

text \<open>
  A run of calls, one after the other with nothing in between: notes created with the
  identifiers and instants given, and notes deleted by identifier.
\<close>

fun mem_createNotes :: "MemStorage \<Rightarrow> (string \<times> timestamp \<times> InsertNote) list \<Rightarrow> MemStorage" where
  "mem_createNotes st [] = st"
| "mem_createNotes st ((ident, now, data) # rest) =
     mem_createNotes (snd (mem_createNote st ident now data)) rest"

fun mem_deleteNotes :: "MemStorage \<Rightarrow> string list \<Rightarrow> MemStorage" where
  "mem_deleteNotes st [] = st"
| "mem_deleteNotes st (ident # rest) = mem_deleteNotes (snd (mem_deleteNote st ident)) rest"

text \<open>
  Vocabulary of the proofs about \<^verbatim>\<open>createFlashcards\<close>: the counter update of one
  \<open>mem_createFlashcard\<close> on the map of subjects, a counter raised by \<open>n\<close>, and the
  optional strings on which \<^verbatim>\<open>||\<close> and the column default give the same value.
\<close>

definition count_one :: "Subject js_map \<Rightarrow> string \<Rightarrow> Subject js_map" where
  "count_one m sid =
     (case map_get m sid of
        Some subject \<Rightarrow>
          map_set m sid
            (subject\<lparr>s_flashcardsCount := Some (js_add (to_num (s_flashcardsCount subject)) 1)\<rparr>)
      | None \<Rightarrow> m)"

definition count_up :: "nat \<Rightarrow> Subject \<Rightarrow> Subject" where
  "count_up n s =
     (if n = 0 then s
      else s\<lparr>s_flashcardsCount := Some (to_num (s_flashcardsCount s) + int n)\<rparr>)"

fun plain :: "string optional \<Rightarrow> bool" where
  "plain Omitted = True"
| "plain Null = False"
| "plain (Given s) = (s \<noteq> [])"

text \<open>A note stored under \<open>k\<close> that belongs to the subject \<open>sid\<close>.\<close>

definition owned :: "MemStorage \<Rightarrow> string \<Rightarrow> string \<Rightarrow> bool" where
  "owned st sid k =
     (case map_get (m_notes st) k of Some n \<Rightarrow> n_subjectId n = sid | None \<Rightarrow> False)"

text \<open>
  The counter of the subject \<open>x\<close> raised by one, on a row; and the counter of the
  subject \<open>u\<close> as one round of the relational loop sets it.
\<close>

definition inc_if :: "string \<Rightarrow> Subject \<Rightarrow> Subject" where
  "inc_if x s = (if s_id s = x
     then s\<lparr>s_flashcardsCount := Some (js_add (to_num (s_flashcardsCount s)) 1)\<rparr> else s)"

definition set_count :: "InsertFlashcard list \<Rightarrow> string \<Rightarrow> Subject \<Rightarrow> Subject" where
  "set_count batch u s =
     (if s_id s = u
      then s\<lparr>s_flashcardsCount :=
               Some (or0 (s_flashcardsCount s) + int (length (filter (\<lambda>f. if_subjectId f = u) batch)))\<rparr>
      else s)"

text \<open>
  A subject whose stored counter, and that counter raised by \<open>n\<close>, are values an
  \<^verbatim>\<open>integer\<close> column holds.
\<close>

definition fits :: "nat \<Rightarrow> Subject \<Rightarrow> bool" where
  "fits n s =
     (int4 (to_num (s_flashcardsCount s)) \<and> int4 (to_num (s_flashcardsCount s) + int n))"

text \<open>
  An insert record whose \<^verbatim>\<open>uuid\<close> values are each the text the engine prints for
  them, so that the engine stores and compares them as the strings they are.
\<close>

definition printed_columns :: "(string \<Rightarrow> string option) \<Rightarrow> InsertFlashcard \<Rightarrow> bool" where
  "printed_columns uuid_in f =
     (uuid_in (if_subjectId f) = Some (if_subjectId f)
      \<and> (case if_summaryId f of Given s \<Rightarrow> uuid_in s = Some s | _ \<Rightarrow> True))"

text \<open>
  Two lists with the same elements, each as often, in whatever order; and two states
  of the tables with the same rows.
\<close>

fun permuted :: "'a list \<Rightarrow> 'a list \<Rightarrow> bool" where
  "permuted [] ys = (ys = [])"
| "permuted (x # xs) ys = (x \<in> set ys \<and> permuted xs (remove1 x ys))"

definition same_rows :: "DatabaseStorage \<Rightarrow> DatabaseStorage \<Rightarrow> bool" where
  "same_rows a b =
     (permuted (db_subjects a) (db_subjects b)
      \<and> permuted (db_notes a) (db_notes b)
      \<and> permuted (db_summaries a) (db_summaries b)
      \<and> permuted (db_flashcards a) (db_flashcards b)
      \<and> permuted (db_questions a) (db_questions b)
      \<and> permuted (db_studyPlans a) (db_studyPlans b))"

section \<open>Concrete replies and stores\<close>

text \<open>A provider whose reply parses to \<^verbatim>\<open>null\<close>, and one with two flashcards.\<close>

definition null_reply :: "summary_prompt \<Rightarrow> completion" where
  "null_reply p = Json JNull"

definition two_cards :: "flashcards_prompt \<Rightarrow> completion" where
  "two_cards p = Json (JObj [(''flashcards'', JArr [card_json ''q1'' ''a1'', card_json ''q2'' ''a2''])])"

definition no_definitions :: "summary_prompt \<Rightarrow> completion" where
  "no_definitions p =
     Json (JObj [(''keyPoints'', JArr [JStr ''Cells are the basic unit of life.'']),
                 (''fullSummary'', JStr ''On cells.'')])"

text \<open>
  A store with two subjects and one study plan, and the tables with the same rows.
\<close>

definition biology :: Subject where
  "biology = \<lparr>s_id = ''s1'', s_name = ''Biology'', s_icon = Some ''book'',
     s_color = Some ''green'', s_notesCount = Some 1, s_flashcardsCount = Some 1,
     s_questionsCount = Some 1, s_lastAccessed = Some 100\<rparr>"

definition physics :: Subject where
  "physics = \<lparr>s_id = ''s2'', s_name = ''Physics'', s_icon = Some ''book'',
     s_color = Some ''blue'', s_notesCount = Some 1, s_flashcardsCount = Some 1,
     s_questionsCount = Some 1, s_lastAccessed = Some 200\<rparr>"

definition note_cells :: Note where
  "note_cells = \<lparr>n_id = ''n1'', n_subjectId = ''s1'', n_title = ''Cells'',
     n_content = ''Cells are the basic unit of life.'', n_fileType = Some ''text'',
     n_fileName = None, n_createdAt = 110\<rparr>"

definition note_forces :: Note where
  "note_forces = \<lparr>n_id = ''n2'', n_subjectId = ''s2'', n_title = ''Forces'',
     n_content = ''A force changes motion.'', n_fileType = Some ''text'',
     n_fileName = None, n_createdAt = 210\<rparr>"

definition summary_cells :: Summary where
  "summary_cells = \<lparr>sm_id = ''m1'', sm_noteId = ''n1'', sm_subjectId = ''s1'',
     sm_title = ''Cells'', sm_keyPoints = [''Cells are units''], sm_definitions = [],
     sm_formulas = [], sm_mainConcepts = [''cell''], sm_fullSummary = ''On cells.'',
     sm_createdAt = 120\<rparr>"

definition summary_forces :: Summary where
  "summary_forces = \<lparr>sm_id = ''m2'', sm_noteId = ''n2'', sm_subjectId = ''s2'',
     sm_title = ''Forces'', sm_keyPoints = [''Forces change motion''], sm_definitions = [],
     sm_formulas = [''F = ma''], sm_mainConcepts = [''force''], sm_fullSummary = ''On forces.'',
     sm_createdAt = 220\<rparr>"

definition card_cells :: Flashcard where
  "card_cells = \<lparr>f_id = ''f1'', f_subjectId = ''s1'', f_summaryId = Some ''m1'',
     f_front = ''What is a cell?'', f_back = ''The basic unit of life'',
     f_difficulty = Some ''medium'', f_lastReviewed = Some 130, f_timesReviewed = Some 1\<rparr>"

definition card_forces :: Flashcard where
  "card_forces = \<lparr>f_id = ''f2'', f_subjectId = ''s2'', f_summaryId = Some ''m2'',
     f_front = ''What is a force?'', f_back = ''What changes motion'',
     f_difficulty = Some ''medium'', f_lastReviewed = None, f_timesReviewed = Some 0\<rparr>"

definition question_cells :: Question where
  "question_cells = \<lparr>q_id = ''q1'', q_subjectId = ''s1'', q_summaryId = Some ''m1'',
     q_type = ''short'', q_question = ''Define a cell.'', q_options = None,
     q_answer = ''The basic unit of life'', q_explanation = None,
     q_difficulty = Some ''easy''\<rparr>"

definition question_forces :: Question where
  "question_forces = \<lparr>q_id = ''q2'', q_subjectId = ''s2'', q_summaryId = Some ''m2'',
     q_type = ''short'', q_question = ''Define a force.'', q_options = None,
     q_answer = ''What changes motion'', q_explanation = None,
     q_difficulty = Some ''easy''\<rparr>"

definition task_read :: StudyTask where
  "task_read = \<lparr>t_id = ''t1'', t_topic = ''Read on cells'', t_subject = ''Biology'',
     t_duration = ''1 hour'', t_priority = High, t_completed = False,
     t_date = ''2026-01-20'', t_timeSlot = Some ''Morning''\<rparr>"

definition task_quiz :: StudyTask where
  "task_quiz = \<lparr>t_id = ''t2'', t_topic = ''Quiz on forces'', t_subject = ''Physics'',
     t_duration = ''1 hour'', t_priority = Medium, t_completed = True,
     t_date = ''2026-01-25'', t_timeSlot = None\<rparr>"

definition task_old :: StudyTask where
  "task_old = \<lparr>t_id = ''t3'', t_topic = ''Skim the notes'', t_subject = ''Biology'',
     t_duration = ''1 hour'', t_priority = Low, t_completed = False,
     t_date = ''2026-01-02'', t_timeSlot = None\<rparr>"

definition task_review :: StudyTask where
  "task_review = \<lparr>t_id = ''t4'', t_topic = ''Review forces'', t_subject = ''Physics'',
     t_duration = ''2 hours'', t_priority = Medium, t_completed = False,
     t_date = ''2026-01-18'', t_timeSlot = Some ''Evening''\<rparr>"

definition plan_exam :: StudyPlan where
  "plan_exam = \<lparr>p_id = ''p1'', p_title = ''Exam week'', p_description = ''Two subjects'',
     p_startDate = ''2026-01-01'', p_endDate = ''2026-01-31'',
     p_tasks = [task_read, task_quiz, task_old, task_review], p_createdAt = 300\<rparr>"

definition store1 :: MemStorage where
  "store1 = \<lparr>m_subjects = [(''s1'', biology), (''s2'', physics)],
     m_notes = [(''n1'', note_cells), (''n2'', note_forces)],
     m_summaries = [(''m1'', summary_cells), (''m2'', summary_forces)],
     m_flashcards = [(''f1'', card_cells), (''f2'', card_forces)],
     m_questions = [(''q1'', question_cells), (''q2'', question_forces)],
     m_studyPlans = [(''p1'', plan_exam)]\<rparr>"

definition tables1 :: DatabaseStorage where
  "tables1 = \<lparr>db_subjects = [biology, physics],
     db_notes = [note_cells, note_forces],
     db_summaries = [summary_cells, summary_forces],
     db_flashcards = [card_cells, card_forces],
     db_questions = [question_cells, question_forces],
     db_studyPlans = [plan_exam]\<rparr>"

text \<open>A collation that orders strings code unit by code unit.\<close>

definition by_code_unit :: "string \<Rightarrow> string \<Rightarrow> int" where
  "by_code_unit a b = (if a < b then - 1 else if b < a then 1 else 0)"

definition mark_done :: Partial_StudyTask where
  "mark_done = \<lparr>pt_id = None, pt_topic = None, pt_subject = None, pt_duration = None,
     pt_priority = None, pt_completed = Some True, pt_date = None, pt_timeSlot = None\<rparr>"

definition rate_easy :: Partial_Flashcard where
  "rate_easy = \<lparr>pf_id = None, pf_subjectId = None, pf_summaryId = None, pf_front = None,
     pf_back = None, pf_difficulty = Some (Some ''easy''), pf_lastReviewed = None,
     pf_timesReviewed = None\<rparr>"

text \<open>
  A collation that orders letters without regard to case, and a small letter before
  its capital, as the collation of a locale does.
\<close>

definition lower_case :: "char \<Rightarrow> char" where
  "lower_case c =
     (case map_of (zip ''ABCDEFGHIJKLMNOPQRSTUVWXYZ'' ''abcdefghijklmnopqrstuvwxyz'') c of
        Some l \<Rightarrow> l
      | None \<Rightarrow> c)"

definition by_letter :: "string \<Rightarrow> string \<Rightarrow> int" where
  "by_letter a b =
     (let x = map lower_case a; y = map lower_case b
      in if x < y then - 1 else if y < x then 1 else by_code_unit b a)"

text \<open>
  Two requests to the task route that set only a date, and the first store after
  them: its plan has an open task dated \<^verbatim>\<open>"b"\<close> and one dated \<^verbatim>\<open>"C"\<close>.
\<close>

definition date_b :: Partial_StudyTask where
  "date_b = \<lparr>pt_id = None, pt_topic = None, pt_subject = None, pt_duration = None,
     pt_priority = None, pt_completed = None, pt_date = Some ''b'', pt_timeSlot = None\<rparr>"

definition date_C :: Partial_StudyTask where
  "date_C = \<lparr>pt_id = None, pt_topic = None, pt_subject = None, pt_duration = None,
     pt_priority = None, pt_completed = None, pt_date = Some ''C'', pt_timeSlot = None\<rparr>"

definition store_patched :: MemStorage where
  "store_patched =
     snd (patch_task (snd (patch_task store1 ''p1'' ''t1'' date_b)) ''p1'' ''t4'' date_C)"

text \<open>Insert records, and the first store with a third subject created in it.\<close>

definition note_a :: InsertNote where
  "note_a = \<lparr>in_subjectId = ''s3'', in_title = ''Atoms'',
     in_content = ''Atoms make up matter.'', in_fileType = Omitted,
     in_fileName = Omitted\<rparr>"

definition chemistry :: InsertSubject where
  "chemistry = \<lparr>is_name = ''Chemistry'', is_icon = Omitted, is_color = Given ''red''\<rparr>"

definition store2 :: MemStorage where
  "store2 = snd (mem_createSubject store1 ''s3'' 400 chemistry)"

text \<open>
  An input routine for \<^verbatim>\<open>uuid\<close> values: it reads 32 hexadecimal digits with
  hyphens after the 8th, 12th, 16th and 20th, and prints them with small letters.
\<close>

definition hex_lower :: "char \<Rightarrow> char option" where
  "hex_lower c = map_of (zip ''0123456789abcdefABCDEF'' ''0123456789abcdefabcdef'') c"

fun read_uuid :: "string \<Rightarrow> string \<Rightarrow> string option" where
  "read_uuid [] [] = Some []"
| "read_uuid (p # ps) (c # cs) =
     (case (if p = CHR ''-'' then (if c = CHR ''-'' then Some c else None) else hex_lower c) of
        None \<Rightarrow> None
      | Some l \<Rightarrow> map_option ((#) l) (read_uuid ps cs))"
| "read_uuid ps cs = None"

definition uuid_text :: "string \<Rightarrow> string option" where
  "uuid_text s = read_uuid ''xxxxxxxx-xxxx-xxxx-xxxx-xxxxxxxxxxxx'' s"

text \<open>
  An engine that takes every statement whose texts are without the character NUL.
\<close>

definition clean_texts :: "InsertFlashcard list \<Rightarrow> bool" where
  "clean_texts batch =
     list_all (\<lambda>f. CHR 0x00 \<notin> set (if_front f) \<and> CHR 0x00 \<notin> set (if_back f)
                  \<and> (case if_difficulty f of Given d \<Rightarrow> CHR 0x00 \<notin> set d | _ \<Rightarrow> True))
       batch"

text \<open>
  Two stores whose identifiers are UUIDs: one with two subjects and a flashcard, one
  with a subject whose \<^verbatim>\<open>flashcardsCount\<close> is the largest an
  \<^verbatim>\<open>integer\<close> column holds.
\<close>

definition history :: Subject where
  "history = \<lparr>s_id = ''0a000000-0000-4000-8000-000000000001'', s_name = ''History'',
     s_icon = Some ''book'', s_color = Some ''blue'', s_notesCount = Some 0,
     s_flashcardsCount = Some 1, s_questionsCount = Some 0, s_lastAccessed = Some 100\<rparr>"

definition geography :: Subject where
  "geography = \<lparr>s_id = ''0a000000-0000-4000-8000-000000000002'', s_name = ''Geography'',
     s_icon = Some ''book'', s_color = Some ''green'', s_notesCount = Some 0,
     s_flashcardsCount = Some 0, s_questionsCount = Some 0, s_lastAccessed = Some 200\<rparr>"

definition archive :: Subject where
  "archive = \<lparr>s_id = ''0a000000-0000-4000-8000-000000000003'', s_name = ''Archive'',
     s_icon = Some ''book'', s_color = Some ''blue'', s_notesCount = Some 0,
     s_flashcardsCount = Some 2147483647, s_questionsCount = Some 0,
     s_lastAccessed = Some 300\<rparr>"

definition card_rome :: Flashcard where
  "card_rome = \<lparr>f_id = ''0f000000-0000-4000-8000-000000000001'',
     f_subjectId = ''0a000000-0000-4000-8000-000000000001'', f_summaryId = None,
     f_front = ''When did Rome fall?'', f_back = ''476'',
     f_difficulty = Some ''medium'', f_lastReviewed = None, f_timesReviewed = Some 0\<rparr>"

definition store3 :: MemStorage where
  "store3 = \<lparr>m_subjects = [(''0a000000-0000-4000-8000-000000000001'', history),
                           (''0a000000-0000-4000-8000-000000000002'', geography)],
     m_notes = [], m_summaries = [],
     m_flashcards = [(''0f000000-0000-4000-8000-000000000001'', card_rome)],
     m_questions = [], m_studyPlans = []\<rparr>"

definition store_full :: MemStorage where
  "store_full = \<lparr>m_subjects = [(''0a000000-0000-4000-8000-000000000003'', archive)],
     m_notes = [], m_summaries = [], m_flashcards = [], m_questions = [],
     m_studyPlans = []\<rparr>"

definition blank_card :: InsertFlashcard where
  "blank_card = \<lparr>if_subjectId = ''0a000000-0000-4000-8000-000000000001'',
     if_summaryId = Omitted, if_front = ''Who was Caesar?'',
     if_back = ''A Roman consul'', if_difficulty = Given ''''\<rparr>"

definition medium_card :: "string \<Rightarrow> InsertFlashcard" where
  "medium_card sid = \<lparr>if_subjectId = sid, if_summaryId = Omitted, if_front = ''Q'',
     if_back = ''A'', if_difficulty = Given ''medium''\<rparr>"

section \<open>The AI gateway: properties\<close>

lemma or_else_not_null: "d \<noteq> JNull \<Longrightarrow> or_else v d \<noteq> JNull"
  by (cases v) auto

lemma read_prop_Inr: "result \<noteq> JNull \<Longrightarrow> \<exists>v. read_prop result k = Inr v"
  by (cases result) auto

text \<open>
  C1, as stated, fails: asked for 25 flashcards, with a provider that answers eleven,
  \<open>generateFlashcards\<close> returns all eleven. The clamp goes into the prompt only.
\<close>

theorem generateFlashcards_over_ten:
  "\<not> cards (generateFlashcards eleven ''Cells are the basic unit of life.'' (Some 25)) \<le> 10"
  by (simp add: generateFlashcards_def eleven_def)

text \<open>
  C1, amended: the count written into the prompt is the requested count (10 when none is
  given) clamped to at most 10; the function returns the \<^verbatim>\<open>flashcards\<close> list of
  the parsed reply as it is, and the empty list when the reply has none. So the result
  has at most 10 flashcards whenever the reply lists at most 10.
\<close>

theorem generateFlashcards_clamps_request:
  "fp_count (flashcardsPrompt content count) \<le> 10
   \<and> fp_count (flashcardsPrompt content count) = min (case count of None \<Rightarrow> 10 | Some c \<Rightarrow> c) 10
   \<and> (llm (flashcardsPrompt content count) = Json (JObj fs) \<longrightarrow>
        map_of fs ''flashcards'' = Some (JArr xs) \<longrightarrow>
          generateFlashcards llm content count = Inr (JArr xs)
          \<and> cards (generateFlashcards llm content count) = length xs
          \<and> (length xs \<le> 10 \<longrightarrow> cards (generateFlashcards llm content count) \<le> 10))
   \<and> (llm (flashcardsPrompt content count) = Json (JObj fs) \<longrightarrow>
        map_of fs ''flashcards'' = None \<longrightarrow>
          generateFlashcards llm content count = Inr (JArr []))"
  by (simp add: generateFlashcards_def flashcardsPrompt_def Let_def)

theorem generateFlashcards_clamps_request_witness:
  "fp_count (flashcardsPrompt ''Cells'' (Some 25)) = 10
   \<and> two_cards (flashcardsPrompt ''Cells'' (Some 25))
        = Json (JObj [(''flashcards'', JArr [card_json ''q1'' ''a1'', card_json ''q2'' ''a2''])])
   \<and> generateFlashcards two_cards ''Cells'' (Some 25)
        = Inr (JArr [card_json ''q1'' ''a1'', card_json ''q2'' ''a2''])
   \<and> cards (generateFlashcards two_cards ''Cells'' (Some 25)) \<le> 10"
  using generateFlashcards_clamps_request [of "''Cells''" "Some 25" two_cards
      "[(''flashcards'', JArr [card_json ''q1'' ''a1'', card_json ''q2'' ''a2''])]"
      "[card_json ''q1'' ''a1'', card_json ''q2'' ''a2'']"]
  by (simp add: two_cards_def)

text \<open>
  C6, as stated, fails: a reply that parses to \<^verbatim>\<open>null\<close> is parsed successfully,
  but reading \<^verbatim>\<open>keyPoints\<close> from it raises, and \<open>summarizeContent\<close> throws.
\<close>

theorem summarizeContent_null_throws:
  "summarizeContent null_reply ''Cells are the basic unit of life.'' ''Biology''
     = Inl (Error (''Failed to generate summary: '' @ typeError_null ''keyPoints''))"
  by (simp add: summarizeContent_def null_reply_def summary_of_def)

text \<open>
  C6, amended: when the reply parses to any value other than \<^verbatim>\<open>null\<close> (a JSON
  object, as the request asks for, or the empty object parsed for a reply without
  content), \<open>summarizeContent\<close> returns a result with no null field, in which each of
  \<^verbatim>\<open>keyPoints\<close>, \<^verbatim>\<open>definitions\<close>, \<^verbatim>\<open>formulas\<close>,
  \<^verbatim>\<open>mainConcepts\<close> missing from the parsed value is the empty list and a missing
  \<^verbatim>\<open>fullSummary\<close> is \<^verbatim>\<open>"Summary not available."\<close>.
\<close>

theorem summarizeContent_fills_missing_fields:
  assumes "parsed (llm (summarizePrompt content title)) = Inr result" and "result \<noteq> JNull"
  shows "\<exists>s. summarizeContent llm content title = Inr s
    \<and> keyPoints s \<noteq> JNull \<and> definitions s \<noteq> JNull \<and> formulas s \<noteq> JNull
    \<and> mainConcepts s \<noteq> JNull \<and> fullSummary s \<noteq> JNull
    \<and> (read_prop result ''keyPoints'' = Inr None \<longrightarrow> keyPoints s = JArr [])
    \<and> (read_prop result ''definitions'' = Inr None \<longrightarrow> definitions s = JArr [])
    \<and> (read_prop result ''formulas'' = Inr None \<longrightarrow> formulas s = JArr [])
    \<and> (read_prop result ''mainConcepts'' = Inr None \<longrightarrow> mainConcepts s = JArr [])
    \<and> (read_prop result ''fullSummary'' = Inr None \<longrightarrow>
          fullSummary s = JStr ''Summary not available.'')"
proof -
  obtain kp ds fs mc fu where r:
    "read_prop result ''keyPoints'' = Inr kp" "read_prop result ''definitions'' = Inr ds"
    "read_prop result ''formulas'' = Inr fs" "read_prop result ''mainConcepts'' = Inr mc"
    "read_prop result ''fullSummary'' = Inr fu"
    using read_prop_Inr [OF assms(2)] by metis
  show ?thesis
    using assms(1) r by (simp add: summarizeContent_def summary_of_def or_else_not_null)
qed

theorem summarizeContent_fills_missing_fields_witness:
  "parsed (no_definitions (summarizePrompt ''Cells are the basic unit of life.'' ''Biology''))
     = Inr (JObj [(''keyPoints'', JArr [JStr ''Cells are the basic unit of life.'']),
                  (''fullSummary'', JStr ''On cells.'')])
   \<and> JObj [(''keyPoints'', JArr [JStr ''Cells are the basic unit of life.'']),
            (''fullSummary'', JStr ''On cells.'')] \<noteq> JNull
   \<and> summarizeContent no_definitions ''Cells are the basic unit of life.'' ''Biology''
     = Inr \<lparr>keyPoints = JArr [JStr ''Cells are the basic unit of life.''],
            definitions = JArr [],
            formulas = JArr [],
            mainConcepts = JArr [],
            fullSummary = JStr ''On cells.''\<rparr>"
proof -
  let ?r = "JObj [(''keyPoints'', JArr [JStr ''Cells are the basic unit of life.'']),
                  (''fullSummary'', JStr ''On cells.'')]"
  have p: "parsed (no_definitions
             (summarizePrompt ''Cells are the basic unit of life.'' ''Biology'')) = Inr ?r"
    by (simp add: no_definitions_def)
  have n: "?r \<noteq> JNull" by simp
  from summarizeContent_fills_missing_fields
         [of no_definitions "''Cells are the basic unit of life.''" "''Biology''" ?r, OF p n]
  obtain s where s: "summarizeContent no_definitions ''Cells are the basic unit of life.''
        ''Biology'' = Inr s" "definitions s = JArr []" "formulas s = JArr []"
      "mainConcepts s = JArr []"
    by auto
  have "summarizeContent no_definitions ''Cells are the basic unit of life.'' ''Biology''
     = Inr \<lparr>keyPoints = JArr [JStr ''Cells are the basic unit of life.''],
            definitions = definitions s, formulas = formulas s,
            mainConcepts = mainConcepts s, fullSummary = JStr ''On cells.''\<rparr>"
    using s(1) by (auto simp add: summarizeContent_def no_definitions_def summary_of_def)
  then show ?thesis using s p by simp
qed

section \<open>Counters\<close>

lemma bits_le: "n < 2 ^ k \<Longrightarrow> bits n \<le> k"
proof (induction k arbitrary: n)
  case 0
  then show ?case by (simp add: bits.simps)
next
  case (Suc k)
  show ?case
  proof (cases "n = 0")
    case True
    then show ?thesis by (simp add: bits.simps)
  next
    case False
    from Suc.prems have "n div 2 < 2 ^ k" by simp
    then have "bits (n div 2) \<le> k" by (rule Suc.IH)
    with False show ?thesis by (subst bits.simps) simp
  qed
qed

lemma bits_power: "bits (2 ^ k) = Suc k"
proof (induction k)
  case 0
  show ?case by (simp add: bits.simps [of "Suc 0"] bits.simps [of 0])
next
  case (Suc k)
  then show ?case by (subst bits.simps) simp
qed

lemma bits_power_Suc: "bits (Suc (2 ^ Suc k)) = Suc (Suc k)"
  by (subst bits.simps) (simp add: bits_power)

text \<open>A sum of at most \<open>2\<^sup>5\<^sup>3\<close> in size is exact; the next one is not.\<close>

lemma to_double_safe: "\<bar>n\<bar> \<le> 9007199254740992 \<Longrightarrow> to_double n = n"
proof (cases "\<bar>n\<bar> = 9007199254740992")
  case True
  then have "nat \<bar>n\<bar> = 2 ^ 53" by simp
  then have b: "bits (nat \<bar>n\<bar>) = 54" by (simp only: bits_power)
  from True have "n = 9007199254740992 \<or> n = - 9007199254740992" by arith
  then show ?thesis by (auto simp: to_double_def b)
next
  case False
  assume "\<bar>n\<bar> \<le> 9007199254740992"
  with False have "nat \<bar>n\<bar> < 2 ^ 53" by simp
  then have "bits (nat \<bar>n\<bar>) \<le> 53" by (rule bits_le)
  then have "bits (nat \<bar>n\<bar>) - 53 = 0" by simp
  then show ?thesis by (simp add: to_double_def)
qed

lemma js_add_safe: "\<bar>a + b\<bar> \<le> 9007199254740992 \<Longrightarrow> js_add a b = a + b"
  by (simp add: js_add_def to_double_safe)

lemma js_add_sticks: "js_add 9007199254740992 1 = 9007199254740992"
proof -
  have "nat \<bar>9007199254740992 + 1 :: int\<bar> = Suc (2 ^ Suc 52)" by simp
  then have "bits (nat \<bar>9007199254740992 + 1 :: int\<bar>) = 54" by (simp only: bits_power_Suc)
  then show ?thesis by (simp add: js_add_def to_double_def)
qed

lemma js_add_int4: "int4 (a + b) \<Longrightarrow> js_add a b = a + b"
proof (rule js_add_safe)
  assume "int4 (a + b)"
  then have "- 2147483648 \<le> a + b" "a + b \<le> 2147483647" by (simp_all add: int4_def)
  then show "\<bar>a + b\<bar> \<le> 9007199254740992" by arith
qed

section \<open>Maps, loops and sorting\<close>

lemmas example_rows = biology_def physics_def note_cells_def note_forces_def summary_cells_def
  summary_forces_def card_cells_def card_forces_def question_cells_def question_forces_def
  task_read_def task_quiz_def task_old_def task_review_def plan_exam_def

lemma map_get_set: "map_get (map_set m k v) k' = (if k' = k then Some v else map_get m k')"
  by (induction m) (auto simp: map_get_def)

lemma map_get_delete: "map_get (map_delete m k) k' = (if k' = k then None else map_get m k')"
  by (induction m) (auto simp: map_get_def map_delete_def)

lemma map_set_same: "map_get m k = Some v \<Longrightarrow> map_set m k v = m"
  by (induction m) (auto simp: map_get_def split: if_splits)

lemma set_map_delete: "set (map_delete m k) = {e \<in> set m. fst e \<noteq> k}"
  by (auto simp: map_delete_def)

lemma delete_loop_subset: "set (delete_loop p es m) \<subseteq> set m"
proof (induction es arbitrary: m)
  case Nil
  then show ?case by simp
next
  case (Cons a es)
  have "set (delete_loop p (a # es) m)
          \<subseteq> set (if p (snd a) then map_delete m (fst a) else m)"
    using Cons.IH by simp
  also have "\<dots> \<subseteq> set m" by (simp add: set_map_delete)
  finally show ?case .
qed

lemma delete_loop_visited:
  "e \<in> set (delete_loop p es m) \<Longrightarrow> e' \<in> set es \<Longrightarrow> p (snd e') \<Longrightarrow> fst e \<noteq> fst e'"
proof (induction es arbitrary: m)
  case Nil
  then show ?case by simp
next
  case (Cons a es)
  show ?case
  proof (cases "e' = a")
    case True
    with Cons.prems have "e \<in> set (delete_loop p es (map_delete m (fst a)))" by simp
    then have "e \<in> set (map_delete m (fst a))" using delete_loop_subset by blast
    then show ?thesis using True by (simp add: set_map_delete)
  next
    case False
    with Cons.prems have "e' \<in> set es" by simp
    moreover from Cons.prems
    have "e \<in> set (delete_loop p es (if p (snd a) then map_delete m (fst a) else m))" by simp
    ultimately show ?thesis using Cons.IH Cons.prems(3) by blast
  qed
qed

lemma delete_loop_clears: "e \<in> set (delete_loop p m m) \<Longrightarrow> \<not> p (snd e)"
proof
  assume a: "e \<in> set (delete_loop p m m)" and b: "p (snd e)"
  from a have "e \<in> set m" using delete_loop_subset by blast
  from delete_loop_visited [OF a this b] show False by simp
qed

lemma delete_loop_values:
  "v \<in> set (map_values (delete_loop p m m)) \<Longrightarrow> \<not> p v"
  using delete_loop_clears [of _ p m] by (auto simp: map_values_def)

lemma insert_by_set: "set (insert_by cmp x ys) = insert x (set ys)"
  by (induction ys) auto

lemma js_sort_set: "set (js_sort cmp xs) = set xs"
  by (induction xs) (auto simp: js_sort_def insert_by_set)

lemma js_sort_length: "length (js_sort cmp xs) = length xs"
proof -
  have "length (insert_by cmp x ys) = Suc (length ys)" for x ys
    by (induction ys) auto
  then show ?thesis by (induction xs) (auto simp: js_sort_def)
qed

section \<open>Listing, and the cascade of a deleted subject\<close>

text \<open>
  C10: in both stores, \<open>getFlashcards\<close> with the subject \<^verbatim>\<open>"all"\<close> returns the
  list it returns without a subject, which is every flashcard; the same holds for
  \<open>getQuestions\<close>.
\<close>

theorem all_is_no_filter:
  "mem_getFlashcards st (Some ''all'') = mem_getFlashcards st None
   \<and> mem_getFlashcards st (Some ''all'') = map_values (m_flashcards st)
   \<and> mem_getQuestions st (Some ''all'') = mem_getQuestions st None
   \<and> mem_getQuestions st (Some ''all'') = map_values (m_questions st)
   \<and> db_getFlashcards db (Some ''all'') = db_getFlashcards db None
   \<and> db_getFlashcards db (Some ''all'') = db_flashcards db
   \<and> db_getQuestions db (Some ''all'') = db_getQuestions db None
   \<and> db_getQuestions db (Some ''all'') = db_questions db"
  by (simp add: mem_getFlashcards_def mem_getQuestions_def db_getFlashcards_def db_getQuestions_def)

theorem all_is_no_filter_witness:
  "mem_getFlashcards store1 (Some ''all'') = [card_cells, card_forces]
   \<and> mem_getFlashcards store1 (Some ''s1'') = [card_cells]
   \<and> mem_getQuestions store1 (Some ''all'') = [question_cells, question_forces]
   \<and> db_getFlashcards tables1 (Some ''all'') = [card_cells, card_forces]
   \<and> db_getQuestions tables1 (Some ''all'') = [question_cells, question_forces]"
  using all_is_no_filter [of store1 tables1]
  by (simp add: map_values_def store1_def tables1_def mem_getFlashcards_def mem_getQuestions_def
      db_getFlashcards_def db_getQuestions_def card_cells_def card_forces_def)

text \<open>
  C4: after \<open>deleteSubject\<close> of an identifier, in both stores, each of \<open>getNotes\<close>,
  \<open>getSummaries\<close>, \<open>getFlashcards\<close> and \<open>getQuestions\<close>, whatever its argument,
  returns no record whose \<^verbatim>\<open>subjectId\<close> is that identifier.
\<close>

theorem deleteSubject_cascades:
  "(\<forall>n \<in> set (mem_getNotes (snd (mem_deleteSubject st ident)) arg). n_subjectId n \<noteq> ident)
   \<and> (\<forall>s \<in> set (mem_getSummaries (snd (mem_deleteSubject st ident)) arg). sm_subjectId s \<noteq> ident)
   \<and> (\<forall>f \<in> set (mem_getFlashcards (snd (mem_deleteSubject st ident)) arg). f_subjectId f \<noteq> ident)
   \<and> (\<forall>q \<in> set (mem_getQuestions (snd (mem_deleteSubject st ident)) arg). q_subjectId q \<noteq> ident)
   \<and> (\<forall>n \<in> set (db_getNotes (snd (db_deleteSubject db ident)) arg). n_subjectId n \<noteq> ident)
   \<and> (\<forall>s \<in> set (db_getSummaries (snd (db_deleteSubject db ident)) arg). sm_subjectId s \<noteq> ident)
   \<and> (\<forall>f \<in> set (db_getFlashcards (snd (db_deleteSubject db ident)) arg). f_subjectId f \<noteq> ident)
   \<and> (\<forall>q \<in> set (db_getQuestions (snd (db_deleteSubject db ident)) arg). q_subjectId q \<noteq> ident)"
proof -
  have m1: "\<forall>n \<in> set (mem_getNotes (snd (mem_deleteSubject st ident)) arg). n_subjectId n \<noteq> ident"
    using delete_loop_values [of _ "\<lambda>n. n_subjectId n = ident" "m_notes st"]
    by (auto simp: mem_getNotes_def mem_deleteSubject_def Let_def split: option.splits if_splits)
  have m2: "\<forall>s \<in> set (mem_getSummaries (snd (mem_deleteSubject st ident)) arg). sm_subjectId s \<noteq> ident"
    using delete_loop_values [of _ "\<lambda>s. sm_subjectId s = ident" "m_summaries st"]
    by (auto simp: mem_getSummaries_def mem_deleteSubject_def Let_def js_sort_set
        split: option.splits if_splits)
  have m3: "\<forall>f \<in> set (mem_getFlashcards (snd (mem_deleteSubject st ident)) arg). f_subjectId f \<noteq> ident"
    using delete_loop_values [of _ "\<lambda>f. f_subjectId f = ident" "m_flashcards st"]
    by (auto simp: mem_getFlashcards_def mem_deleteSubject_def Let_def split: option.splits if_splits)
  have m4: "\<forall>q \<in> set (mem_getQuestions (snd (mem_deleteSubject st ident)) arg). q_subjectId q \<noteq> ident"
    using delete_loop_values [of _ "\<lambda>q. q_subjectId q = ident" "m_questions st"]
    by (auto simp: mem_getQuestions_def mem_deleteSubject_def Let_def split: option.splits if_splits)
  have d1: "\<forall>n \<in> set (db_getNotes (snd (db_deleteSubject db ident)) arg). n_subjectId n \<noteq> ident"
    by (auto simp: db_getNotes_def db_deleteSubject_def Let_def split: option.splits if_splits)
  have d2: "\<forall>s \<in> set (db_getSummaries (snd (db_deleteSubject db ident)) arg). sm_subjectId s \<noteq> ident"
    by (auto simp: db_getSummaries_def db_deleteSubject_def Let_def js_sort_set
        split: option.splits if_splits)
  have d3: "\<forall>f \<in> set (db_getFlashcards (snd (db_deleteSubject db ident)) arg). f_subjectId f \<noteq> ident"
    by (auto simp: db_getFlashcards_def db_deleteSubject_def Let_def split: option.splits if_splits)
  have d4: "\<forall>q \<in> set (db_getQuestions (snd (db_deleteSubject db ident)) arg). q_subjectId q \<noteq> ident"
    by (auto simp: db_getQuestions_def db_deleteSubject_def Let_def split: option.splits if_splits)
  from m1 m2 m3 m4 d1 d2 d3 d4 show ?thesis by blast
qed

theorem deleteSubject_cascades_witness:
  "mem_getNotes (snd (mem_deleteSubject store1 ''s1'')) None = [note_forces]
   \<and> mem_getSummaries (snd (mem_deleteSubject store1 ''s1'')) None = [summary_forces]
   \<and> mem_getFlashcards (snd (mem_deleteSubject store1 ''s1'')) None = [card_forces]
   \<and> mem_getQuestions (snd (mem_deleteSubject store1 ''s1'')) None = [question_forces]
   \<and> db_getNotes (snd (db_deleteSubject tables1 ''s1'')) None = [note_forces]
   \<and> db_getSummaries (snd (db_deleteSubject tables1 ''s1'')) None = [summary_forces]
   \<and> db_getFlashcards (snd (db_deleteSubject tables1 ''s1'')) None = [card_forces]
   \<and> db_getQuestions (snd (db_deleteSubject tables1 ''s1'')) None = [question_forces]
   \<and> n_subjectId note_forces \<noteq> ''s1'' \<and> sm_subjectId summary_forces \<noteq> ''s1''
   \<and> f_subjectId card_forces \<noteq> ''s1'' \<and> q_subjectId question_forces \<noteq> ''s1''"
  using deleteSubject_cascades [of store1 "''s1''" None tables1]
  by (simp add: mem_deleteSubject_def db_deleteSubject_def Let_def store1_def tables1_def
      map_delete_def map_values_def js_sort_def mem_getNotes_def mem_getSummaries_def
      mem_getFlashcards_def mem_getQuestions_def db_getNotes_def db_getSummaries_def
      db_getFlashcards_def db_getQuestions_def example_rows)

section \<open>Study plan tasks\<close>

lemma unmatched_map:
  "taskId \<notin> t_id ` set ts \<Longrightarrow> map (\<lambda>t. if t_id t = taskId then g t else t) ts = ts"
  by (induction ts) auto

text \<open>
  C9: for a stored plan and a task identifier that none of its tasks has,
  \<open>updateStudyPlanTask\<close> returns the plan as it was (not an absent result) and leaves
  the store as it was, and the route answers 200 with that plan.
\<close>

theorem unknown_task_answers_200:
  assumes "mem_getStudyPlan st planId = Some plan"
    and "taskId \<notin> t_id ` set (p_tasks plan)"
  shows "mem_updateStudyPlanTask st planId taskId data = (Some plan, st)
    \<and> patch_task st planId taskId data = (\<lparr>res_status = 200, res_json = PlanBody plan\<rparr>, st)"
proof -
  have g: "map_get (m_studyPlans st) planId = Some plan"
    using assms(1) by (simp add: mem_getStudyPlan_def)
  have t: "map (\<lambda>t. if t_id t = taskId then spread_StudyTask t data else t) (p_tasks plan)
             = p_tasks plan"
    using assms(2) by (rule unmatched_map)
  have u: "mem_updateStudyPlanTask st planId taskId data = (Some plan, st)"
    by (simp add: mem_updateStudyPlanTask_def g t map_set_same [OF g] Let_def)
  then show ?thesis by (simp add: patch_task_def)
qed

theorem unknown_task_answers_200_witness:
  "mem_getStudyPlan store1 ''p1'' = Some plan_exam
   \<and> ''t9'' \<notin> t_id ` set (p_tasks plan_exam)
   \<and> mem_updateStudyPlanTask store1 ''p1'' ''t9'' mark_done = (Some plan_exam, store1)
   \<and> res_status (fst (patch_task store1 ''p1'' ''t9'' mark_done)) = 200"
proof -
  have a: "mem_getStudyPlan store1 ''p1'' = Some plan_exam"
    by (simp add: mem_getStudyPlan_def store1_def map_get_def)
  have b: "''t9'' \<notin> t_id ` set (p_tasks plan_exam)"
    by (simp add: plan_exam_def task_read_def task_quiz_def task_old_def task_review_def)
  from unknown_task_answers_200 [OF a b, of mark_done] a b show ?thesis by simp
qed





section \<open>The dashboard\<close>

lemma push_loop:
  "foldl (push_upcoming today) acc ts
     = acc @ filter (\<lambda>t. \<not> t_completed t \<and> today \<le> t_date t) ts"
  by (induction ts arbitrary: acc) (auto simp: push_upcoming_def)

lemma collect_loop:
  "foldl (\<lambda>acc plan. foldl (push_upcoming today) acc (p_tasks plan)) acc plans
     = acc @ concat (map (\<lambda>p. filter (\<lambda>t. \<not> t_completed t \<and> today \<le> t_date t) (p_tasks p)) plans)"
  by (induction plans arbitrary: acc) (auto simp: push_loop)

lemma collect_upcoming_eq:
  "collect_upcoming today plans
     = concat (map (\<lambda>p. filter (\<lambda>t. \<not> t_completed t \<and> today \<le> t_date t) (p_tasks p)) plans)"
  by (simp add: collect_upcoming_def collect_loop)

lemma insert_by_sorted:
  assumes total: "\<forall>a b. cmp a b \<le> 0 \<or> cmp b a \<le> 0"
    and trans: "\<forall>a b c. cmp a b \<le> 0 \<longrightarrow> cmp b c \<le> 0 \<longrightarrow> cmp a c \<le> 0"
  shows "sorted_wrt (\<lambda>a b. cmp a b \<le> 0) ys \<Longrightarrow> sorted_wrt (\<lambda>a b. cmp a b \<le> 0) (insert_by cmp x ys)"
proof (induction ys)
  case Nil
  then show ?case by simp
next
  case (Cons y ys)
  show ?case
  proof (cases "cmp x y \<le> 0")
    case True
    then have "\<forall>z \<in> set ys. cmp x z \<le> 0" using Cons.prems trans by auto
    with True Cons.prems show ?thesis by simp
  next
    case False
    then have "cmp y x \<le> 0" using total by blast
    with False Cons show ?thesis by (auto simp: insert_by_set)
  qed
qed

lemma js_sort_sorted:
  assumes "\<forall>a b. cmp a b \<le> 0 \<or> cmp b a \<le> 0"
    and "\<forall>a b c. cmp a b \<le> 0 \<longrightarrow> cmp b c \<le> 0 \<longrightarrow> cmp a c \<le> 0"
  shows "sorted_wrt (\<lambda>a b. cmp a b \<le> 0) (js_sort cmp xs)"
  by (induction xs) (simp_all add: js_sort_def insert_by_sorted [OF assms])

lemma sorted_wrt_take': "sorted_wrt R xs \<Longrightarrow> sorted_wrt R (take n xs)"
  by (induction xs arbitrary: n) (auto simp: take_Cons split: nat.splits dest: in_set_takeD)

text \<open>
  The sort asks the comparator only about elements of the list: two comparators that
  answer alike on them sort it alike.
\<close>

lemma insert_by_cong:
  "\<forall>y \<in> set ys. (cmp x y \<le> 0) = (cmp' x y \<le> 0) \<Longrightarrow> insert_by cmp x ys = insert_by cmp' x ys"
  by (induction ys) auto

lemma js_sort_cong:
  "\<forall>x \<in> set xs. \<forall>y \<in> set xs. (cmp x y \<le> 0) = (cmp' x y \<le> 0) \<Longrightarrow>
     js_sort cmp xs = js_sort cmp' xs"
proof (induction xs)
  case Nil
  then show ?case by (simp add: js_sort_def)
next
  case (Cons x xs)
  from Cons.prems have "\<forall>a \<in> set xs. \<forall>b \<in> set xs. (cmp a b \<le> 0) = (cmp' a b \<le> 0)" by simp
  then have ih: "js_sort cmp xs = js_sort cmp' xs" by (rule Cons.IH)
  from Cons.prems have "\<forall>y \<in> set (js_sort cmp' xs). (cmp x y \<le> 0) = (cmp' x y \<le> 0)"
    by (simp add: js_sort_set)
  then have "insert_by cmp x (js_sort cmp' xs) = insert_by cmp' x (js_sort cmp' xs)"
    by (rule insert_by_cong)
  with ih show ?case by (simp add: js_sort_def)
qed

lemma js_sort_by_key:
  fixes key :: "'a \<Rightarrow> string"
  assumes "\<forall>x \<in> set xs. \<forall>y \<in> set xs. (cmp x y \<le> 0) = (key x \<le> key y)"
  shows "sorted_wrt (\<lambda>a b. key a \<le> key b) (js_sort cmp xs)"
proof -
  let ?c = "\<lambda>a b. if key a \<le> key b then 0 else (1 :: int)"
  have "js_sort cmp xs = js_sort ?c xs" using assms by (intro js_sort_cong) simp
  moreover have "sorted_wrt (\<lambda>a b. ?c a b \<le> 0) (js_sort ?c xs)"
    by (rule js_sort_sorted) (auto split: if_splits)
  moreover have "(\<lambda>a b. ?c a b \<le> 0) = (\<lambda>a b. key a \<le> key b)" by (intro ext) simp
  ultimately show ?thesis by simp
qed

text \<open>
  C5, as stated, fails: \<^verbatim>\<open>localeCompare\<close> is not the comparison of strings that
  the filter uses. After two requests to the task route have set the dates of the two
  open tasks of the plan to \<^verbatim>\<open>"b"\<close> and \<^verbatim>\<open>"C"\<close>, and under a collation that
  orders letters without regard to case, \<^verbatim>\<open>upcomingTasks\<close> lists the task dated
  \<^verbatim>\<open>"b"\<close> before the one dated \<^verbatim>\<open>"C"\<close>, while
  \<^verbatim>\<open>"b" <= "C"\<close> is false: the list is not ascending in the comparison of strings.
\<close>

theorem upcomingTasks_not_in_string_order:
  "map t_date (upcomingTasks (mem_getDashboardStats by_letter ''2026-01-15'' store_patched))
     = [''b'', ''C'']
   \<and> \<not> sorted_wrt (\<lambda>a b. t_date a \<le> t_date b)
         (upcomingTasks (mem_getDashboardStats by_letter ''2026-01-15'' store_patched))
   \<and> \<not> (''b'' :: string) \<le> ''C''
   \<and> by_letter ''b'' ''C'' \<le> 0"
  by (simp add: mem_getDashboardStats_def Let_def mem_getStudyPlans_def mem_getSummaries_def
      store_patched_def patch_task_def mem_updateStudyPlanTask_def spread_StudyTask_def
      date_b_def date_C_def store1_def map_get_def map_values_def js_sort_def
      collect_upcoming_def push_upcoming_def plan_exam_def task_read_def task_quiz_def
      task_old_def task_review_def by_letter_def lower_case_def by_code_unit_def)

text \<open>
  C5, amended: for every store and every \<open>today\<close>, each task in
  \<^verbatim>\<open>upcomingTasks\<close> is a task of a stored plan that is not completed and whose
  date is not before \<open>today\<close> in the comparison of strings, and the list has at most 5
  tasks. It is in ascending order of date in the collation \<^verbatim>\<open>localeCompare\<close>
  sorts by, when that collation is a total preorder; and it is ascending in the
  comparison of strings when the collation agrees with that comparison on the dates of
  the stored tasks.
\<close>

theorem upcomingTasks_filtered_sorted_capped:
  "(\<forall>t \<in> set (upcomingTasks (mem_getDashboardStats localeCompare today st)).
        \<not> t_completed t \<and> today \<le> t_date t \<and> \<not> t_date t < today
        \<and> (\<exists>p \<in> set (map_values (m_studyPlans st)). t \<in> set (p_tasks p)))
   \<and> length (upcomingTasks (mem_getDashboardStats localeCompare today st)) \<le> 5
   \<and> ((\<forall>a b. localeCompare a b \<le> 0 \<or> localeCompare b a \<le> 0)
        \<and> (\<forall>a b c. localeCompare a b \<le> 0 \<longrightarrow> localeCompare b c \<le> 0 \<longrightarrow> localeCompare a c \<le> 0)
      \<longrightarrow> sorted_wrt (\<lambda>a b. localeCompare (t_date a) (t_date b) \<le> 0)
            (upcomingTasks (mem_getDashboardStats localeCompare today st)))
   \<and> ((\<forall>p \<in> set (map_values (m_studyPlans st)). \<forall>q \<in> set (map_values (m_studyPlans st)).
         \<forall>a \<in> set (p_tasks p). \<forall>b \<in> set (p_tasks q).
           (localeCompare (t_date a) (t_date b) \<le> 0) = (t_date a \<le> t_date b))
      \<longrightarrow> sorted_wrt (\<lambda>a b. t_date a \<le> t_date b)
            (upcomingTasks (mem_getDashboardStats localeCompare today st)))"
proof -
  let ?cmp = "\<lambda>a b. localeCompare (t_date a) (t_date b)"
  let ?cand = "collect_upcoming today (mem_getStudyPlans st)"
  let ?all = "js_sort ?cmp ?cand"
  have up: "upcomingTasks (mem_getDashboardStats localeCompare today st) = take 5 ?all"
    by (simp add: mem_getDashboardStats_def Let_def)
  have cand: "\<not> t_completed t \<and> today \<le> t_date t
            \<and> (\<exists>p \<in> set (map_values (m_studyPlans st)). t \<in> set (p_tasks p))"
    if "t \<in> set ?cand" for t
  proof -
    from that obtain p where "p \<in> set (mem_getStudyPlans st)" "t \<in> set (p_tasks p)"
        "\<not> t_completed t" "today \<le> t_date t"
      by (auto simp: collect_upcoming_eq)
    then show ?thesis by (auto simp: mem_getStudyPlans_def js_sort_set)
  qed
  have mem: "\<not> t_completed t \<and> today \<le> t_date t \<and> \<not> t_date t < today
            \<and> (\<exists>p \<in> set (map_values (m_studyPlans st)). t \<in> set (p_tasks p))"
    if "t \<in> set (take 5 ?all)" for t
  proof -
    from that have "t \<in> set ?all" by (rule in_set_takeD)
    then have "t \<in> set ?cand" by (simp add: js_sort_set)
    then have "\<not> t_completed t \<and> today \<le> t_date t
            \<and> (\<exists>p \<in> set (map_values (m_studyPlans st)). t \<in> set (p_tasks p))"
      by (rule cand)
    then show ?thesis by (simp add: not_less)
  qed
  have len: "length (take 5 ?all) \<le> 5" by simp
  have srt: "sorted_wrt (\<lambda>a b. ?cmp a b \<le> 0) (take 5 ?all)"
    if "(\<forall>a b. localeCompare a b \<le> 0 \<or> localeCompare b a \<le> 0)
        \<and> (\<forall>a b c. localeCompare a b \<le> 0 \<longrightarrow> localeCompare b c \<le> 0 \<longrightarrow> localeCompare a c \<le> 0)"
  proof -
    have tot: "\<forall>a b. ?cmp a b \<le> 0 \<or> ?cmp b a \<le> 0" using that by blast
    have tr: "\<forall>a b c. ?cmp a b \<le> 0 \<longrightarrow> ?cmp b c \<le> 0 \<longrightarrow> ?cmp a c \<le> 0" using that by blast
    have "sorted_wrt (\<lambda>a b. ?cmp a b \<le> 0) ?all" using tot tr by (rule js_sort_sorted)
    then show ?thesis by (rule sorted_wrt_take')
  qed
  have cu: "sorted_wrt (\<lambda>a b. t_date a \<le> t_date b) (take 5 ?all)"
    if agree: "\<forall>p \<in> set (map_values (m_studyPlans st)). \<forall>q \<in> set (map_values (m_studyPlans st)).
         \<forall>a \<in> set (p_tasks p). \<forall>b \<in> set (p_tasks q).
           (localeCompare (t_date a) (t_date b) \<le> 0) = (t_date a \<le> t_date b)"
  proof -
    have "\<forall>x \<in> set ?cand. \<forall>y \<in> set ?cand. (?cmp x y \<le> 0) = (t_date x \<le> t_date y)"
    proof (intro ballI)
      fix x y assume "x \<in> set ?cand" "y \<in> set ?cand"
      with cand obtain p q where "p \<in> set (map_values (m_studyPlans st))" "x \<in> set (p_tasks p)"
          "q \<in> set (map_values (m_studyPlans st))" "y \<in> set (p_tasks q)"
        by blast
      with agree show "(?cmp x y \<le> 0) = (t_date x \<le> t_date y)" by blast
    qed
    then have "sorted_wrt (\<lambda>a b. t_date a \<le> t_date b) ?all" by (rule js_sort_by_key)
    then show ?thesis by (rule sorted_wrt_take')
  qed
  from mem len srt cu show ?thesis unfolding up by blast
qed

lemma by_code_unit_total: "\<forall>a b. by_code_unit a b \<le> 0 \<or> by_code_unit b a \<le> 0"
  by (auto simp: by_code_unit_def)

lemma by_code_unit_trans:
  "\<forall>a b c. by_code_unit a b \<le> 0 \<longrightarrow> by_code_unit b c \<le> 0 \<longrightarrow> by_code_unit a c \<le> 0"
  by (auto simp: by_code_unit_def split: if_splits)

lemma by_code_unit_le: "(by_code_unit a b \<le> 0) = (a \<le> b)"
  by (auto simp: by_code_unit_def)

lemma upcoming_store1:
  "upcomingTasks (mem_getDashboardStats by_code_unit ''2026-01-15'' store1) = [task_review, task_read]"
  by (simp add: mem_getDashboardStats_def Let_def mem_getStudyPlans_def mem_getSummaries_def
      store1_def map_values_def js_sort_def collect_upcoming_def push_upcoming_def plan_exam_def
      task_read_def task_quiz_def task_old_def task_review_def by_code_unit_def)

theorem upcomingTasks_filtered_sorted_capped_witness:
  "upcomingTasks (mem_getDashboardStats by_code_unit ''2026-01-15'' store1) = [task_review, task_read]
   \<and> task_review \<in> set (upcomingTasks (mem_getDashboardStats by_code_unit ''2026-01-15'' store1))
   \<and> \<not> t_completed task_review \<and> ''2026-01-15'' \<le> t_date task_review
   \<and> by_code_unit (t_date task_review) (t_date task_read) \<le> 0
   \<and> t_date task_review \<le> t_date task_read
   \<and> length (upcomingTasks (mem_getDashboardStats by_code_unit ''2026-01-15'' store1)) \<le> 5"
  using upcomingTasks_filtered_sorted_capped [of by_code_unit "''2026-01-15''" store1]
  by (simp add: upcoming_store1 by_code_unit_le)

section \<open>The notes counter\<close>

lemma createNote_subject:
  assumes "map_get (m_subjects st) sid = Some s" and "in_subjectId data = sid"
  shows "map_get (m_subjects (snd (mem_createNote st i now data))) sid
           = Some (s\<lparr>s_notesCount := Some (js_add (to_num (s_notesCount s)) 1),
                     s_lastAccessed := Some now\<rparr>)"
  using assms by (simp add: mem_createNote_def Let_def map_get_set)

lemma createNote_notes:
  "\<exists>n. n_subjectId n = in_subjectId data \<and>
     m_notes (snd (mem_createNote st i now data)) = map_set (m_notes st) i n"
proof (intro exI conjI)
  show "m_notes (snd (mem_createNote st i now data)) = map_set (m_notes st) i
          \<lparr>n_id = i, n_subjectId = in_subjectId data, n_title = in_title data,
           n_content = in_content data,
           n_fileType = Some (or_string (in_fileType data) ''text''),
           n_fileName = nullable (in_fileName data), n_createdAt = now\<rparr>"
    by (simp add: mem_createNote_def Let_def split: option.splits)
qed simp

lemma createNote_owned:
  assumes "in_subjectId data = sid"
  shows "owned (snd (mem_createNote st i now data)) sid i"
    and "owned st sid k \<Longrightarrow> owned (snd (mem_createNote st i now data)) sid k"
  using createNote_notes [of data st i now] assms
  by (auto simp: owned_def map_get_set split: option.splits)

lemma createNotes_effect:
  assumes "map_get (m_subjects st) sid = Some s" and "s_notesCount s = Some c"
    and "0 \<le> c" and "c + int (length creates) \<le> 9007199254740992"
    and "\<forall>x \<in> set creates. in_subjectId (snd (snd x)) = sid"
  shows "(\<exists>s'. map_get (m_subjects (mem_createNotes st creates)) sid = Some s'
              \<and> s_notesCount s' = Some (c + int (length creates)))
       \<and> (\<forall>k. k \<in> fst ` set creates \<or> owned st sid k \<longrightarrow> owned (mem_createNotes st creates) sid k)"
  using assms
proof (induction creates arbitrary: st s c)
  case Nil
  then show ?case by simp
next
  case (Cons x creates)
  obtain i now data where x: "x = (i, now, data)" by (cases x) auto
  let ?st = "snd (mem_createNote st i now data)"
  let ?s = "s\<lparr>s_notesCount := Some (js_add (to_num (s_notesCount s)) 1), s_lastAccessed := Some now\<rparr>"
  from Cons.prems x have d: "in_subjectId data = sid" by simp
  have a: "map_get (m_subjects ?st) sid = Some ?s"
    using Cons.prems(1) d by (rule createNote_subject)
  from Cons.prems(3,4) have "\<bar>c + 1\<bar> \<le> 9007199254740992" by simp
  then have j: "js_add c 1 = c + 1" by (rule js_add_safe)
  have b: "s_notesCount ?s = Some (c + 1)" using Cons.prems(2) j by simp
  have p: "0 \<le> c + 1" using Cons.prems(3) by simp
  have q: "c + 1 + int (length creates) \<le> 9007199254740992" using Cons.prems(4) by simp
  have r: "\<forall>x \<in> set creates. in_subjectId (snd (snd x)) = sid" using Cons.prems(5) by simp
  from Cons.IH [OF a b p q r]
  have ih1: "\<exists>s'. map_get (m_subjects (mem_createNotes ?st creates)) sid = Some s'
              \<and> s_notesCount s' = Some (c + 1 + int (length creates))"
    and ih2: "\<forall>k. k \<in> fst ` set creates \<or> owned ?st sid k \<longrightarrow> owned (mem_createNotes ?st creates) sid k"
    by blast+
  have "\<exists>s'. map_get (m_subjects (mem_createNotes st (x # creates))) sid = Some s'
              \<and> s_notesCount s' = Some (c + int (length (x # creates)))"
    using ih1 x by (simp add: algebra_simps)
  moreover have "\<forall>k. k \<in> fst ` set (x # creates) \<or> owned st sid k
                   \<longrightarrow> owned (mem_createNotes st (x # creates)) sid k"
    using ih2 createNote_owned [OF d, where st=st and i=i and now=now] x by auto
  ultimately show ?case by blast
qed

lemma deleteNote_owned:
  assumes "map_get (m_subjects st) sid = Some s" and "owned st sid k"
  shows "map_get (m_subjects (snd (mem_deleteNote st k))) sid
           = Some (s\<lparr>s_notesCount := Some (max 0 (js_add (to_num (s_notesCount s)) (- 1)))\<rparr>)"
    and "k' \<noteq> k \<Longrightarrow> owned st sid k' \<Longrightarrow> owned (snd (mem_deleteNote st k)) sid k'"
  using assms
  by (auto simp: mem_deleteNote_def Let_def owned_def map_get_set map_get_delete
      split: option.splits)

lemma deleteNotes_effect:
  assumes "map_get (m_subjects st) sid = Some s" and "s_notesCount s = Some c"
    and "int (length deletes) \<le> c" and "c \<le> 9007199254740992" and "distinct deletes"
    and "\<forall>k \<in> set deletes. owned st sid k"
  shows "\<exists>s'. map_get (m_subjects (mem_deleteNotes st deletes)) sid = Some s'
              \<and> s_notesCount s' = Some (c - int (length deletes))"
  using assms
proof (induction deletes arbitrary: st s c)
  case Nil
  then show ?case by simp
next
  case (Cons k deletes)
  let ?st = "snd (mem_deleteNote st k)"
  let ?s = "s\<lparr>s_notesCount := Some (max 0 (js_add (to_num (s_notesCount s)) (- 1)))\<rparr>"
  from Cons.prems have o: "owned st sid k" by simp
  have a: "map_get (m_subjects ?st) sid = Some ?s"
    using Cons.prems(1) o by (rule deleteNote_owned(1))
  from Cons.prems(3,4) have "\<bar>c + (- 1)\<bar> \<le> 9007199254740992" by simp
  then have "js_add c (- 1) = c + (- 1)" by (rule js_add_safe)
  then have j: "js_add c (- 1) = c - 1" by simp
  from Cons.prems(2,3) j have b: "s_notesCount ?s = Some (c - 1)" by simp
  from Cons.prems(3) have l: "int (length deletes) \<le> c - 1" by simp
  from Cons.prems(4) have u: "c - 1 \<le> 9007199254740992" by simp
  from Cons.prems(5) have d: "distinct deletes" by simp
  have r: "\<forall>k' \<in> set deletes. owned ?st sid k'"
  proof
    fix k' assume k': "k' \<in> set deletes"
    with Cons.prems(5) have "k' \<noteq> k" by auto
    moreover from k' Cons.prems(6) have "owned st sid k'" by simp
    ultimately show "owned ?st sid k'" by (rule deleteNote_owned(2) [OF Cons.prems(1) o])
  qed
  from Cons.IH [OF a b l u d r] show ?case by (simp add: algebra_simps)
qed

text \<open>
  C3: take a stored subject whose \<^verbatim>\<open>notesCount\<close> is a number \<open>c \<ge> 0\<close> when
  the run starts (0 for a subject without notes, as \<open>createSubject\<close> leaves it).
  After N notes of that subject are created one after the other, and M of them
  (distinct identifiers among those created) are then deleted, M is at most N and the
  subject's \<^verbatim>\<open>notesCount\<close> is c + N - M: it is N - M for the subject that
  started without notes. Each single \<open>createNote\<close> for the subject raises the counter
  by one, and each single \<open>deleteNote\<close> of one of its notes lowers it by one, but not
  below zero. The counter is a double: this is stated for the counts that a double
  holds exactly, c + N below \<open>2\<^sup>5\<^sup>3\<close> = 9007199254740992.
\<close>

theorem notesCount_after_creates_and_deletes:
  assumes "mem_getSubject st sid = Some s" and "s_notesCount s = Some c" and "0 \<le> c"
    and "c + int (length creates) < 9007199254740992"
    and "\<forall>x \<in> set creates. in_subjectId (snd (snd x)) = sid"
    and "distinct deletes" and "set deletes \<subseteq> fst ` set creates"
  shows "length deletes \<le> length creates
    \<and> (\<exists>s'. mem_getSubject (mem_deleteNotes (mem_createNotes st creates) deletes) sid = Some s'
            \<and> s_notesCount s' = Some (c + int (length creates) - int (length deletes))
            \<and> (c = 0 \<longrightarrow> s_notesCount s' = Some (int (length creates) - int (length deletes))))
    \<and> (\<forall>i now data. in_subjectId data = sid \<longrightarrow>
          map_option s_notesCount (mem_getSubject (snd (mem_createNote st i now data)) sid)
            = Some (Some (c + 1)))
    \<and> (\<forall>k. owned st sid k \<longrightarrow>
          map_option s_notesCount (mem_getSubject (snd (mem_deleteNote st k)) sid)
            = Some (Some (max 0 (c - 1))))"
proof -
  have g: "map_get (m_subjects st) sid = Some s" using assms(1) by (simp add: mem_getSubject_def)
  have "length deletes = card (set deletes)" using assms(6) by (simp add: distinct_card)
  also have "\<dots> \<le> card (fst ` set creates)" using assms(7) by (simp add: card_mono)
  also have "\<dots> \<le> length creates" by (metis card_image_le card_length le_trans List.finite_set)
  finally have one: "length deletes \<le> length creates" .
  from assms(4) have le: "c + int (length creates) \<le> 9007199254740992" by simp
  from createNotes_effect [OF g assms(2,3) le assms(5)]
  obtain s1 where s1: "map_get (m_subjects (mem_createNotes st creates)) sid = Some s1"
      "s_notesCount s1 = Some (c + int (length creates))"
    and own: "\<forall>k \<in> set deletes. owned (mem_createNotes st creates) sid k"
    using assms(7) by blast
  from one assms(3) have "int (length deletes) \<le> c + int (length creates)" by simp
  from deleteNotes_effect [OF s1 this le assms(6) own]
  have "\<exists>s'. mem_getSubject (mem_deleteNotes (mem_createNotes st creates) deletes) sid = Some s'
            \<and> s_notesCount s' = Some (c + int (length creates) - int (length deletes))"
    by (simp add: mem_getSubject_def)
  then have two: "\<exists>s'. mem_getSubject (mem_deleteNotes (mem_createNotes st creates) deletes) sid = Some s'
            \<and> s_notesCount s' = Some (c + int (length creates) - int (length deletes))
            \<and> (c = 0 \<longrightarrow> s_notesCount s' = Some (int (length creates) - int (length deletes)))"
    by auto
  from assms(3,4) have "\<bar>c + 1\<bar> \<le> 9007199254740992" by simp
  then have up: "js_add c 1 = c + 1" by (rule js_add_safe)
  from assms(3,4) have "\<bar>c + (- 1)\<bar> \<le> 9007199254740992" by simp
  then have "js_add c (- 1) = c + (- 1)" by (rule js_add_safe)
  then have down: "js_add c (- 1) = c - 1" by simp
  have three: "map_option s_notesCount (mem_getSubject (snd (mem_createNote st i now data)) sid)
            = Some (Some (c + 1))"
    if "in_subjectId data = sid" for i now data
    using createNote_subject [OF g that] assms(2) up by (simp add: mem_getSubject_def)
  have four: "map_option s_notesCount (mem_getSubject (snd (mem_deleteNote st k)) sid)
            = Some (Some (max 0 (c - 1)))"
    if "owned st sid k" for k
    using deleteNote_owned(1) [OF g that] assms(2) down by (simp add: mem_getSubject_def)
  from one two three four show ?thesis by blast
qed

lemma store2_subject:
  "mem_getSubject store2 ''s3''
     = Some \<lparr>s_id = ''s3'', s_name = ''Chemistry'', s_icon = Some ''book'',
             s_color = Some ''red'', s_notesCount = Some 0, s_flashcardsCount = Some 0,
             s_questionsCount = Some 0, s_lastAccessed = Some 400\<rparr>"
  by (simp add: store2_def mem_createSubject_def Let_def mem_getSubject_def map_get_set
      chemistry_def)

theorem notesCount_after_creates_and_deletes_witness:
  "distinct [''n4'', ''n3'']
   \<and> set [''n4'', ''n3'']
         \<subseteq> fst ` set [(''n3'', 410 :: timestamp, note_a), (''n4'', 420, note_a),
                        (''n5'', 430, note_a)]
   \<and> map_option s_notesCount (mem_getSubject store2 ''s3'') = Some (Some 0)
   \<and> (\<exists>s'. mem_getSubject
              (mem_deleteNotes
                 (mem_createNotes store2
                    [(''n3'', 410, note_a), (''n4'', 420, note_a), (''n5'', 430, note_a)])
                 [''n4'', ''n3'']) ''s3'' = Some s'
            \<and> s_notesCount s' = Some 1)"
proof -
  let ?creates = "[(''n3'', 410 :: timestamp, note_a), (''n4'', 420, note_a), (''n5'', 430, note_a)]"
  have a: "\<forall>x \<in> set ?creates. in_subjectId (snd (snd x)) = ''s3''"
    by (simp add: note_a_def)
  have b: "distinct [''n4'', ''n3'']" by simp
  have c: "set [''n4'', ''n3''] \<subseteq> fst ` set ?creates" by simp
  have z: "map_option s_notesCount (mem_getSubject store2 ''s3'') = Some (Some 0)"
    by (simp add: store2_subject)
  note t = notesCount_after_creates_and_deletes [OF store2_subject _ _ _ a b c, of 0]
  have "\<exists>s'. mem_getSubject (mem_deleteNotes (mem_createNotes store2 ?creates) [''n4'', ''n3''])
              ''s3'' = Some s'
            \<and> s_notesCount s' = Some (int (length ?creates) - int (length [''n4'', ''n3'']))"
    using t by auto
  then have "\<exists>s'. mem_getSubject (mem_deleteNotes (mem_createNotes store2 ?creates) [''n4'', ''n3''])
              ''s3'' = Some s'
            \<and> s_notesCount s' = Some 1"
    by simp
  with b c z show ?thesis by blast
qed

section \<open>Batches of flashcards\<close>

lemma map_set_fresh: "k \<notin> fst ` set m \<Longrightarrow> map_set m k v = m @ [(k, v)]"
  by (induction m) auto

lemma map_get_None: "map_get m k = None \<longleftrightarrow> k \<notin> fst ` set m"
  by (simp add: map_get_def map_of_eq_None_iff)

lemma keyed_Cons: "keyed ident (e # m) \<longleftrightarrow> fst e \<notin> fst ` set m \<and> ident (snd e) = fst e \<and> keyed ident m"
  by (auto simp: keyed_def)

lemma keyed_ids: "keyed ident m \<Longrightarrow> map ident (map_values m) = map fst m"
  by (induction m) (auto simp: keyed_Cons map_values_def)

lemma keyed_get: "keyed ident m \<Longrightarrow> map_get m k = Some v \<Longrightarrow> ident v = k \<and> v \<in> set (map_values m)"
  by (force simp: keyed_def map_get_def map_values_def list_all_iff dest!: map_of_SomeD)

lemma keyed_untouched:
  "keyed ident m \<Longrightarrow> x \<notin> fst ` set m \<Longrightarrow>
     map (\<lambda>s. if ident s = x then g s else s) (map_values m) = map_values m"
  by (induction m) (auto simp: keyed_Cons map_values_def)

lemma keyed_map_set:
  "keyed ident m \<Longrightarrow> map_get m x = Some v \<Longrightarrow> ident (g v) = x \<Longrightarrow>
     map_values (map_set m x (g v)) = map (\<lambda>s. if ident s = x then g s else s) (map_values m)
     \<and> keyed ident (map_set m x (g v))"
proof (induction m)
  case Nil
  then show ?case by (simp add: map_get_def)
next
  case (Cons e m)
  from Cons.prems(1) have k: "fst e \<notin> fst ` set m" "ident (snd e) = fst e" "keyed ident m"
    by (simp_all add: keyed_Cons)
  show ?case
  proof (cases "fst e = x")
    case True
    with Cons.prems(2) have v: "snd e = v" by (cases e) (simp add: map_get_def)
    have "map (\<lambda>s. if ident s = x then g s else s) (map_values m) = map_values m"
      using k(3) k(1) True by (simp add: keyed_untouched)
    then show ?thesis using True v k Cons.prems(3)
      by (simp add: map_values_def keyed_Cons)
  next
    case False
    with Cons.prems(2) have "map_get m x = Some v" by (cases e) (simp add: map_get_def)
    from Cons.IH [OF k(3) this Cons.prems(3)] False k
    have "map_values (map_set m x (g v)) = map (\<lambda>s. if ident s = x then g s else s) (map_values m)"
      and "keyed ident (map_set m x (g v))" by simp_all
    moreover have "fst e \<notin> fst ` set (map_set m x (g v))"
    proof -
      have "fst ` set (map_set m x (g v)) \<subseteq> insert x (fst ` set m)"
        by (induction m) auto
      with k(1) False show ?thesis by auto
    qed
    ultimately show ?thesis using False k by (simp add: map_values_def keyed_Cons)
  qed
qed

lemma count_one_values:
  assumes "keyed s_id m"
  shows "map_values (count_one m x) = map (inc_if x) (map_values m) \<and> keyed s_id (count_one m x)"
proof (cases "map_get m x")
  case None
  then have "x \<notin> fst ` set m" by (simp add: map_get_None)
  from keyed_untouched [OF assms this] None assms show ?thesis
    by (simp add: count_one_def inc_if_def [abs_def])
next
  case (Some v)
  from assms Some have "s_id v = x" by (simp add: keyed_get)
  then have "s_id ((\<lambda>s. s\<lparr>s_flashcardsCount := Some (js_add (to_num (s_flashcardsCount s)) 1)\<rparr>) v) = x"
    by simp
  from keyed_map_set [OF assms Some,
      of "\<lambda>s. s\<lparr>s_flashcardsCount := Some (js_add (to_num (s_flashcardsCount s)) 1)\<rparr>", OF this]
  show ?thesis using Some by (simp add: count_one_def inc_if_def [abs_def])
qed

text \<open>
  Within the range of the column the sums of the in-memory path are exact: one step of
  a counter that has room for \<open>n + 1\<close> more.
\<close>

lemma fits_step:
  assumes "fits (Suc n) s"
  shows "js_add (to_num (s_flashcardsCount s)) 1 = to_num (s_flashcardsCount s) + 1"
    and "fits n (s\<lparr>s_flashcardsCount := Some (to_num (s_flashcardsCount s) + 1)\<rparr>)"
proof -
  from assms have a: "int4 (to_num (s_flashcardsCount s) + 1)"
      and b: "int4 (to_num (s_flashcardsCount s) + 1 + int n)"
    by (simp_all add: fits_def int4_def)
  from a show "js_add (to_num (s_flashcardsCount s)) 1 = to_num (s_flashcardsCount s) + 1"
    by (rule js_add_int4)
  from a b show "fits n (s\<lparr>s_flashcardsCount := Some (to_num (s_flashcardsCount s) + 1)\<rparr>)"
    by (simp add: fits_def)
qed

lemma count_up_step:
  "count_up n (s\<lparr>s_flashcardsCount := Some (to_num (s_flashcardsCount s) + 1)\<rparr>) = count_up (Suc n) s"
  by (simp add: count_up_def algebra_simps)

lemma count_up_inc:
  assumes "fits (if s_id s = x then Suc n else n) s"
  shows "count_up n (inc_if x s) = count_up (if s_id s = x then Suc n else n) s"
    and "fits n (inc_if x s)"
proof -
  show "count_up n (inc_if x s) = count_up (if s_id s = x then Suc n else n) s"
  proof (cases "s_id s = x")
    case True
    with assms have "fits (Suc n) s" by simp
    then have "js_add (to_num (s_flashcardsCount s)) 1 = to_num (s_flashcardsCount s) + 1"
      by (rule fits_step(1))
    with True show ?thesis by (simp add: inc_if_def count_up_step)
  next
    case False
    then show ?thesis by (simp add: inc_if_def)
  qed
  show "fits n (inc_if x s)"
  proof (cases "s_id s = x")
    case True
    with assms have f: "fits (Suc n) s" by simp
    from fits_step [OF f] True show ?thesis by (simp add: inc_if_def)
  next
    case False
    with assms show ?thesis by (simp add: inc_if_def)
  qed
qed

lemma inc_rows:
  "\<forall>s \<in> set rows. fits (count_list xs (s_id s)) s \<Longrightarrow>
   foldl (\<lambda>rows x. map (inc_if x) rows) rows xs
     = map (\<lambda>s. count_up (count_list xs (s_id s)) s) rows"
proof (induction xs arbitrary: rows)
  case Nil
  then show ?case by (simp add: count_up_def)
next
  case (Cons x xs)
  have i: "s_id (inc_if x s) = s_id s" for s by (simp add: inc_if_def)
  have f: "fits (if s_id s = x then Suc (count_list xs (s_id s)) else count_list xs (s_id s)) s"
    if "s \<in> set rows" for s
    using Cons.prems that by (auto simp: eq_commute [of x])
  have "\<forall>s \<in> set (map (inc_if x) rows). fits (count_list xs (s_id s)) s"
    using count_up_inc(2) [OF f] by (simp add: i)
  then have "foldl (\<lambda>rows x. map (inc_if x) rows) (map (inc_if x) rows) xs
           = map (\<lambda>s. count_up (count_list xs (s_id s)) s) (map (inc_if x) rows)"
    by (rule Cons.IH)
  also have "\<dots> = map (\<lambda>s. count_up (count_list xs (s_id s)) (inc_if x s)) rows"
    by (simp add: o_def i)
  also have "\<dots> = map (\<lambda>s. count_up (count_list (x # xs) (s_id s)) s) rows"
  proof (rule map_cong [OF refl])
    fix s assume "s \<in> set rows"
    then have "count_up (count_list xs (s_id s)) (inc_if x s)
        = count_up (if s_id s = x then Suc (count_list xs (s_id s)) else count_list xs (s_id s)) s"
      by (intro count_up_inc(1) f)
    then show "count_up (count_list xs (s_id s)) (inc_if x s) = count_up (count_list (x # xs) (s_id s)) s"
      by (simp add: eq_commute [of x])
  qed
  finally show ?case by simp
qed

lemma count_one_fold:
  "keyed s_id m \<Longrightarrow>
     map_values (foldl count_one m xs) = foldl (\<lambda>rows x. map (inc_if x) rows) (map_values m) xs"
  by (induction xs arbitrary: m) (simp_all add: count_one_values)

lemma count_one_rows:
  "keyed s_id m \<Longrightarrow> \<forall>s \<in> set (map_values m). fits (count_list xs (s_id s)) s \<Longrightarrow>
     map_values (foldl count_one m xs) = map (\<lambda>s. count_up (count_list xs (s_id s)) s) (map_values m)"
  by (simp add: count_one_fold inc_rows)

lemma count_one_get:
  "(\<And>s. map_get m k = Some s \<Longrightarrow> fits (count_list xs k) s) \<Longrightarrow>
   map_get (foldl count_one m xs) k = map_option (count_up (count_list xs k)) (map_get m k)"
proof (induction xs arbitrary: m)
  case Nil
  then show ?case by (simp add: count_up_def option.map_ident)
next
  case (Cons x xs)
  show ?case
  proof (cases "map_get m k")
    case None
    then have "map_get (count_one m x) k = None"
      by (auto simp: count_one_def map_get_set split: option.splits)
    with None Cons.IH [of "count_one m x"] show ?thesis by simp
  next
    case (Some s)
    show ?thesis
    proof (cases "k = x")
      case True
      with Cons.prems [OF Some] have f: "fits (Suc (count_list xs k)) s" by simp
      let ?s = "s\<lparr>s_flashcardsCount := Some (to_num (s_flashcardsCount s) + 1)\<rparr>"
      from Some True fits_step(1) [OF f] have g: "map_get (count_one m x) k = Some ?s"
        by (simp add: count_one_def map_get_set)
      have "map_get (foldl count_one (count_one m x) xs) k
              = map_option (count_up (count_list xs k)) (map_get (count_one m x) k)"
        using fits_step(2) [OF f] g by (intro Cons.IH) simp
      with g Some True show ?thesis by (simp add: count_up_step)
    next
      case False
      with Some have g: "map_get (count_one m x) k = Some s"
        by (simp add: count_one_def map_get_set split: option.splits)
      from Cons.prems [OF Some] False have f: "fits (count_list xs k) s" by simp
      have "map_get (foldl count_one (count_one m x) xs) k
              = map_option (count_up (count_list xs k)) (map_get (count_one m x) k)"
        using f g by (intro Cons.IH) simp
      with g Some False show ?thesis by simp
    qed
  qed
qed

text \<open>
  On a record whose \<^verbatim>\<open>uuid\<close> values are printed texts and whose
  \<^verbatim>\<open>difficulty\<close> is left out or a non-empty string, the object the in-memory path
  builds is the row of the relational path.
\<close>

lemma createFlashcard_plain:
  assumes "plain (if_difficulty item)" and "printed_columns uuid_in item"
  shows "mem_createFlashcard st i item =
     (flashcard_row uuid_in i item,
      st\<lparr>m_flashcards := map_set (m_flashcards st) i (flashcard_row uuid_in i item),
         m_subjects := count_one (m_subjects st) (if_subjectId item)\<rparr>)"
proof -
  have d: "Some (or_string (if_difficulty item) ''medium'')
            = or_default (if_difficulty item) (Some ''medium'')"
    using assms(1) by (cases "if_difficulty item") auto
  have s: "nullable (if_summaryId item)
            = map_option (printed uuid_in) (or_default (if_summaryId item) None)"
    using assms(2) by (cases "if_summaryId item") (auto simp: printed_columns_def printed_def)
  have u: "if_subjectId item = printed uuid_in (if_subjectId item)"
    using assms(2) by (simp add: printed_columns_def printed_def)
  have "flashcard_row uuid_in i item =
          \<lparr>f_id = i, f_subjectId = if_subjectId item, f_summaryId = nullable (if_summaryId item),
           f_front = if_front item, f_back = if_back item,
           f_difficulty = Some (or_string (if_difficulty item) ''medium''),
           f_lastReviewed = None, f_timesReviewed = Some 0\<rparr>"
    unfolding flashcard_row_def d s using u by simp
  then show ?thesis
    by (simp add: mem_createFlashcard_def Let_def count_one_def split: option.splits)
qed

lemma createFlashcards_plain:
  "length ids = length batch \<Longrightarrow>
   \<forall>item \<in> set batch. plain (if_difficulty item) \<and> printed_columns uuid_in item \<Longrightarrow>
   mem_createFlashcards st ids batch =
     (map (\<lambda>(i, item). flashcard_row uuid_in i item) (zip ids batch),
      st\<lparr>m_flashcards := foldl (\<lambda>m (i, item). map_set m i (flashcard_row uuid_in i item))
                            (m_flashcards st) (zip ids batch),
         m_subjects := foldl count_one (m_subjects st) (map if_subjectId batch)\<rparr>)"
proof (induction ids batch arbitrary: st rule: list_induct2)
  case Nil
  then show ?case by simp
next
  case (Cons i ids item batch)
  then show ?case by (simp add: createFlashcard_plain [where uuid_in = uuid_in])
qed

lemma fresh_fold:
  "distinct ids \<Longrightarrow> set ids \<inter> fst ` set m = {} \<Longrightarrow>
   foldl (\<lambda>m (i, item). map_set m i (row i item)) m (zip ids batch)
     = m @ map (\<lambda>(i, item). (i, row i item)) (zip ids batch)"
proof (induction ids arbitrary: m batch)
  case Nil
  then show ?case by simp
next
  case (Cons i ids)
  show ?case
  proof (cases batch)
    case Nil
    then show ?thesis by simp
  next
    case (Cons item rest)
    from Cons.prems have f: "i \<notin> fst ` set m" by auto
    from Cons.prems have "distinct ids" "set ids \<inter> fst ` set (m @ [(i, row i item)]) = {}"
      by auto
    from Cons.IH [OF this] f Cons show ?thesis by (simp add: map_set_fresh)
  qed
qed

lemma count_list_map: "count_list (map f xs) y = length (filter (\<lambda>x. f x = y) xs)"
  by (induction xs) auto

lemma first_row_unique:
  "distinct (map s_id rows) \<Longrightarrow> first_row (filter (\<lambda>s. s_id s = u) rows) = Some subject \<Longrightarrow>
     s \<in> set rows \<Longrightarrow> s_id s = u \<Longrightarrow> s = subject"
proof (induction rows)
  case Nil
  then show ?case by simp
next
  case (Cons r rows)
  show ?case
  proof (cases "s_id r = u")
    case True
    with Cons.prems(2) have r: "r = subject" by simp
    from Cons.prems(1) True have "u \<notin> s_id ` set rows" by simp
    with Cons.prems(3,4) have "s = r" by auto
    with r show ?thesis by simp
  next
    case False
    with Cons.prems have "first_row (filter (\<lambda>s. s_id s = u) rows) = Some subject"
      "s \<in> set rows" "distinct (map s_id rows)" by auto
    with Cons.IH Cons.prems(4) show ?thesis by blast
  qed
qed

lemma first_row_none: "first_row (filter P rows) = None \<Longrightarrow> s \<in> set rows \<Longrightarrow> \<not> P s"
  by (induction rows) (auto split: if_splits)

lemma first_row_some: "first_row (filter P rows) = Some s \<Longrightarrow> s \<in> set rows \<and> P s"
  by (induction rows) (auto split: if_splits)

lemma or0_to_num: "or0 c = to_num c"
  by (cases c) auto

text \<open>
  One round of the relational loop, for a subject identifier that is a printed text and
  a count the column can hold.
\<close>

lemma db_add_rows:
  assumes "distinct (map s_id (db_subjects db))" and "printed uuid_in u = u"
    and "\<forall>s \<in> set (db_subjects db). s_id s = u \<longrightarrow>
           int4 (to_num (s_flashcardsCount s) + int (length (filter (\<lambda>f. if_subjectId f = u) batch)))"
  shows "db_add_flashcards uuid_in batch db u
           = Inr (db\<lparr>db_subjects := map (set_count batch u) (db_subjects db)\<rparr>)"
proof (cases "first_row (filter (\<lambda>s. s_id s = u) (db_subjects db))")
  case None
  have "map (set_count batch u) (db_subjects db) = map (\<lambda>s. s) (db_subjects db)"
  proof (rule map_cong [OF refl])
    fix s assume "s \<in> set (db_subjects db)"
    with None have "s_id s \<noteq> u" by (rule first_row_none)
    then show "set_count batch u s = s" by (simp add: set_count_def)
  qed
  with None show ?thesis by (simp add: db_add_flashcards_def Let_def assms(2))
next
  case (Some subject)
  then have "subject \<in> set (db_subjects db) \<and> s_id subject = u" by (rule first_row_some)
  with assms(3)
  have r: "int4 (or0 (s_flashcardsCount subject) + int (length (filter (\<lambda>f. if_subjectId f = u) batch)))"
    by (simp add: or0_to_num)
  have "map (\<lambda>s. if s_id s = u
                then s\<lparr>s_flashcardsCount := Some (or0 (s_flashcardsCount subject)
                        + int (length (filter (\<lambda>f. if_subjectId f = u) batch)))\<rparr>
                else s) (db_subjects db)
          = map (set_count batch u) (db_subjects db)"
  proof (rule map_cong [OF refl])
    fix s assume s: "s \<in> set (db_subjects db)"
    show "(if s_id s = u
           then s\<lparr>s_flashcardsCount := Some (or0 (s_flashcardsCount subject)
                   + int (length (filter (\<lambda>f. if_subjectId f = u) batch)))\<rparr>
           else s) = set_count batch u s"
    proof (cases "s_id s = u")
      case True
      with first_row_unique [OF assms(1) Some s] show ?thesis by (simp add: set_count_def)
    next
      case False
      then show ?thesis by (simp add: set_count_def)
    qed
  qed
  with Some r show ?thesis by (simp add: db_add_flashcards_def Let_def assms(2))
qed

lemma set_count_id: "s_id (set_count batch u s) = s_id s"
  by (simp add: set_count_def)

lemma db_count_fold:
  "distinct (map s_id (db_subjects db)) \<Longrightarrow> \<forall>u \<in> set us. printed uuid_in u = u \<Longrightarrow>
   distinct us \<Longrightarrow>
   \<forall>s \<in> set (db_subjects db). s_id s \<in> set us \<longrightarrow>
      int4 (to_num (s_flashcardsCount s)
            + int (length (filter (\<lambda>f. if_subjectId f = s_id s) batch))) \<Longrightarrow>
   db_count_loop uuid_in batch db us
     = (None, db\<lparr>db_subjects := foldl (\<lambda>rows u. map (set_count batch u) rows) (db_subjects db) us\<rparr>)"
proof (induction us arbitrary: db)
  case Nil
  then show ?case by simp
next
  case (Cons u us)
  let ?db = "db\<lparr>db_subjects := map (set_count batch u) (db_subjects db)\<rparr>"
  have c: "s_id \<circ> set_count batch u = s_id"
    by (rule ext) (simp add: set_count_id)
  from Cons.prems(2) have p: "printed uuid_in u = u" by simp
  from Cons.prems(4)
  have "\<forall>s \<in> set (db_subjects db). s_id s = u \<longrightarrow>
           int4 (to_num (s_flashcardsCount s) + int (length (filter (\<lambda>f. if_subjectId f = u) batch)))"
    by auto
  with Cons.prems(1) p
  have one: "db_add_flashcards uuid_in batch db u = Inr ?db" by (rule db_add_rows)
  from Cons.prems(1) have d: "distinct (map s_id (db_subjects ?db))" by (simp add: c)
  from Cons.prems(2) have q: "\<forall>u \<in> set us. printed uuid_in u = u" by simp
  from Cons.prems(3) have du: "distinct us" and nu: "u \<notin> set us" by simp_all
  have r: "\<forall>s \<in> set (db_subjects ?db). s_id s \<in> set us \<longrightarrow>
      int4 (to_num (s_flashcardsCount s)
            + int (length (filter (\<lambda>f. if_subjectId f = s_id s) batch)))"
  proof (intro ballI impI)
    fix s' assume "s' \<in> set (db_subjects ?db)" and m: "s_id s' \<in> set us"
    then obtain s where s: "s \<in> set (db_subjects db)" "s' = set_count batch u s" by auto
    with m have "s_id s \<in> set us" by (simp add: set_count_id)
    with nu have "s_id s \<noteq> u" by auto
    with s have "s' = s" by (simp add: set_count_def)
    with s(1) m Cons.prems(4) show "int4 (to_num (s_flashcardsCount s')
            + int (length (filter (\<lambda>f. if_subjectId f = s_id s') batch)))"
      by simp
  qed
  from Cons.IH [OF d q du r] one show ?case by simp
qed

lemma set_count_rows:
  "distinct us \<Longrightarrow>
   foldl (\<lambda>rows u. map (set_count batch u) rows) rows us
     = map (\<lambda>s. if s_id s \<in> set us then set_count batch (s_id s) s else s) rows"
proof (induction us arbitrary: rows)
  case Nil
  then show ?case by simp
next
  case (Cons u us)
  then have u: "u \<notin> set us" and d: "distinct us" by simp_all
  have "(if s_id (set_count batch u s) \<in> set us
          then set_count batch (s_id (set_count batch u s)) (set_count batch u s)
          else set_count batch u s)
        = (if s_id s \<in> set (u # us) then set_count batch (s_id s) s else s)" for s
    using u by (auto simp: set_count_def)
  then show ?case by (simp add: Cons.IH [OF d] o_def)
qed

lemma new_Set_props: "set (new_Set xs) = set xs \<and> distinct (new_Set xs)"
proof -
  have "set (foldl set_add acc xs) = set acc \<union> set xs
        \<and> (distinct acc \<longrightarrow> distinct (foldl set_add acc xs))" for acc
    by (induction xs arbitrary: acc) (auto simp: set_add_def)
  from this [of "[]"] show ?thesis by (simp add: new_Set_def)
qed

lemma both_counts:
  "map (\<lambda>s. if s_id s \<in> set (map if_subjectId batch) then set_count batch (s_id s) s else s) rows
     = map (\<lambda>s. count_up (count_list (map if_subjectId batch) (s_id s)) s) rows"
proof (rule map_cong [OF refl])
  fix s
  show "(if s_id s \<in> set (map if_subjectId batch) then set_count batch (s_id s) s else s)
          = count_up (count_list (map if_subjectId batch) (s_id s)) s"
  proof (cases "s_id s \<in> set (map if_subjectId batch)")
    case True
    then have "count_list (map if_subjectId batch) (s_id s) \<noteq> 0"
      by (simp add: count_list_0_iff)
    with True show ?thesis
      by (simp add: set_count_def count_up_def or0_to_num count_list_map)
  next
    case False
    then have "count_list (map if_subjectId batch) (s_id s) = 0"
      by (simp add: count_list_0_iff)
    with False show ?thesis by (simp add: count_up_def)
  qed
qed

lemma created_ids:
  "length ids = length batch \<Longrightarrow>
     map f_id (map (\<lambda>(i, item). flashcard_row uuid_in i item) (zip ids batch)) = ids"
  by (induction ids batch rule: list_induct2) (simp_all add: flashcard_row_def)

lemma created_values:
  "map_values (m @ map (\<lambda>(i, item). (i, row i item)) zs)
     = map_values m @ map (\<lambda>(i, item). row i item) zs"
  by (induction zs) (auto simp: map_values_def)

lemma permuted_refl: "permuted xs xs"
  by (induction xs) simp_all

lemma same_rows_refl: "same_rows db db"
  by (simp add: same_rows_def permuted_refl)

lemma count_up_count: "to_num (s_flashcardsCount (count_up n s)) = to_num (s_flashcardsCount s) + int n"
  by (simp add: count_up_def)

text \<open>
  In the order in which the model keeps the rows, the relational path returns and
  leaves what the in-memory path does.
\<close>

lemma createFlashcards_rows:
  assumes "keyed s_id (m_subjects st)" and "keyed f_id (m_flashcards st)"
    and "length ids = length batch" and "distinct ids"
    and "set ids \<inter> fst ` set (m_flashcards st) = {}"
    and "batch \<noteq> []"
    and "\<forall>item \<in> set batch. plain (if_difficulty item) \<and> printed_columns uuid_in item"
    and "\<forall>s \<in> set (map_values (m_subjects st)).
           fits (length (filter (\<lambda>f. if_subjectId f = s_id s) batch)) s"
    and "accepts batch"
  shows "mem_createFlashcards st ids batch
           = (map (\<lambda>(i, item). flashcard_row uuid_in i item) (zip ids batch),
              st\<lparr>m_flashcards :=
                   foldl (\<lambda>m (i, item). map_set m i (flashcard_row uuid_in i item))
                     (m_flashcards st) (zip ids batch),
                 m_subjects := foldl count_one (m_subjects st) (map if_subjectId batch)\<rparr>)"
    and "db_createFlashcards uuid_in accepts (rows_of st) ids batch
           = (Inr (fst (mem_createFlashcards st ids batch)),
              rows_of (snd (mem_createFlashcards st ids batch)))"
    and "map_values (m_flashcards (snd (mem_createFlashcards st ids batch)))
           = map_values (m_flashcards st) @ fst (mem_createFlashcards st ids batch)"
    and "map_values (m_subjects (snd (mem_createFlashcards st ids batch)))
           = map (\<lambda>s. count_up (length (filter (\<lambda>f. if_subjectId f = s_id s) batch)) s)
               (map_values (m_subjects st))"
proof -
  let ?created = "map (\<lambda>(i, item). flashcard_row uuid_in i item) (zip ids batch)"
  let ?F = "foldl (\<lambda>m (i, item). map_set m i (flashcard_row uuid_in i item)) (m_flashcards st) (zip ids batch)"
  let ?S = "foldl count_one (m_subjects st) (map if_subjectId batch)"
  let ?sids = "map if_subjectId batch"
  show mem: "mem_createFlashcards st ids batch = (?created, st\<lparr>m_flashcards := ?F, m_subjects := ?S\<rparr>)"
    using assms(3,7) by (rule createFlashcards_plain)
  have F: "map_values ?F = map_values (m_flashcards st) @ ?created"
    by (simp add: fresh_fold [OF assms(4,5)] created_values)
  have ft: "\<forall>s \<in> set (map_values (m_subjects st)). fits (count_list ?sids (s_id s)) s"
    using assms(8) by (simp add: count_list_map)
  have S: "map_values ?S = map (\<lambda>s. count_up (count_list ?sids (s_id s)) s) (map_values (m_subjects st))"
    using assms(1) ft by (rule count_one_rows)
  have ds: "distinct (map s_id (map_values (m_subjects st)))"
    using assms(1) by (simp add: keyed_ids) (simp add: keyed_def)
  have "map f_id (map_values (m_flashcards st) @ ?created)
          = map f_id (map_values (m_flashcards st)) @ map f_id ?created"
    by (simp only: map_append)
  then have "map f_id (map_values (m_flashcards st) @ ?created) = map fst (m_flashcards st) @ ids"
    by (simp only: keyed_ids [OF assms(2)] created_ids [OF assms(3)])
  moreover have "distinct (map fst (m_flashcards st) @ ids)"
    using assms(2,4,5) by (auto simp: keyed_def)
  ultimately have df: "distinct (map f_id (map_values (m_flashcards st) @ ?created))" by simp
  let ?db1 = "(rows_of st)\<lparr>db_flashcards := map_values (m_flashcards st) @ ?created\<rparr>"
  have d1: "distinct (map s_id (db_subjects ?db1))" using ds by (simp add: rows_of_def)
  have ns: "set (new_Set ?sids) = set ?sids" "distinct (new_Set ?sids)"
    using new_Set_props [of ?sids] by blast+
  have pr: "\<forall>u \<in> set (new_Set ?sids). printed uuid_in u = u"
    using assms(7) by (auto simp: ns(1) printed_columns_def printed_def)
  have rg: "\<forall>s \<in> set (db_subjects ?db1). s_id s \<in> set (new_Set ?sids) \<longrightarrow>
      int4 (to_num (s_flashcardsCount s)
            + int (length (filter (\<lambda>f. if_subjectId f = s_id s) batch)))"
    using assms(8) by (simp add: rows_of_def fits_def)
  have "foldl (\<lambda>rows u. map (set_count batch u) rows) (db_subjects ?db1) (new_Set ?sids)
          = map (\<lambda>s. if s_id s \<in> set ?sids then set_count batch (s_id s) s else s) (db_subjects ?db1)"
    by (simp only: set_count_rows [OF ns(2)] ns(1))
  also have "\<dots> = map (\<lambda>s. count_up (count_list ?sids (s_id s)) s) (db_subjects ?db1)"
    by (rule both_counts)
  finally have fd: "db_count_loop uuid_in batch ?db1 (new_Set ?sids)
          = (None, ?db1\<lparr>db_subjects := map (\<lambda>s. count_up (count_list ?sids (s_id s)) s) (db_subjects ?db1)\<rparr>)"
    by (simp only: db_count_fold [OF d1 pr ns(2) rg])
  have rf: "db_flashcards (rows_of st) = map_values (m_flashcards st)"
    by (simp add: rows_of_def)
  have uc: "list_all (uuid_columns uuid_in) batch"
    using assms(7)
    by (auto simp: list_all_iff uuid_columns_def printed_columns_def split: optional.splits)
  have db: "db_createFlashcards uuid_in accepts (rows_of st) ids batch
          = (Inr ?created, ?db1\<lparr>db_subjects :=
                   map (\<lambda>s. count_up (count_list ?sids (s_id s)) s) (db_subjects ?db1)\<rparr>)"
    using assms(6,9)
    by (simp only: db_createFlashcards_def Let_def rf df fd uc not_True_eq_False if_False
        not_False_eq_True prod.case option.case)
  have eq: "rows_of (st\<lparr>m_flashcards := ?F, m_subjects := ?S\<rparr>)
          = ?db1\<lparr>db_subjects := map (\<lambda>s. count_up (count_list ?sids (s_id s)) s) (db_subjects ?db1)\<rparr>"
    by (simp add: rows_of_def F S)
  show "db_createFlashcards uuid_in accepts (rows_of st) ids batch
           = (Inr (fst (mem_createFlashcards st ids batch)),
              rows_of (snd (mem_createFlashcards st ids batch)))"
    by (simp add: mem db eq)
  show "map_values (m_flashcards (snd (mem_createFlashcards st ids batch)))
           = map_values (m_flashcards st) @ fst (mem_createFlashcards st ids batch)"
    by (simp add: mem F)
  show "map_values (m_subjects (snd (mem_createFlashcards st ids batch)))
           = map (\<lambda>s. count_up (length (filter (\<lambda>f. if_subjectId f = s_id s) batch)) s)
               (map_values (m_subjects st))"
    by (simp add: mem S count_list_map)
qed

text \<open>
  C8, amended: let every entry of the subjects and flashcards stand under its own
  identifier, the identifiers drawn for the batch be distinct and unused, and the batch
  have a record, which the engine accepts; let every record have a
  \<^verbatim>\<open>difficulty\<close> that is left out or a non-empty string, and
  \<^verbatim>\<open>uuid\<close> values that are texts as the engine prints them; and let the \<^verbatim>\<open>flashcardsCount\<close> of every stored subject, before and
  after the number of records that refer to it is added, be a value of the 32-bit
  column. Then the relational \<open>createFlashcards\<close> on the rows of the store returns the
  records the in-memory one returns, and ends with the rows the in-memory one ends
  with, up to the order of the rows; the records are those of the batch under the
  identifiers drawn, added to the flashcards that were there; and in both the
  \<^verbatim>\<open>flashcardsCount\<close> of every stored subject has grown by the number of
  records of the batch that refer to it.
\<close>

theorem createFlashcards_paths_agree:
  assumes "keyed s_id (m_subjects st)" and "keyed f_id (m_flashcards st)"
    and "length ids = length batch" and "distinct ids"
    and "set ids \<inter> fst ` set (m_flashcards st) = {}"
    and "batch \<noteq> []"
    and "\<forall>item \<in> set batch. plain (if_difficulty item) \<and> printed_columns uuid_in item"
    and "\<forall>s \<in> set (map_values (m_subjects st)).
           fits (length (filter (\<lambda>f. if_subjectId f = s_id s) batch)) s"
    and "accepts batch"
  shows "(\<exists>rows. fst (db_createFlashcards uuid_in accepts (rows_of st) ids batch) = Inr rows
            \<and> permuted rows (fst (mem_createFlashcards st ids batch)))
    \<and> same_rows (snd (db_createFlashcards uuid_in accepts (rows_of st) ids batch))
         (rows_of (snd (mem_createFlashcards st ids batch)))
    \<and> fst (mem_createFlashcards st ids batch)
         = map (\<lambda>(i, item). flashcard_row uuid_in i item) (zip ids batch)
    \<and> mem_getFlashcards (snd (mem_createFlashcards st ids batch)) None
         = mem_getFlashcards st None @ fst (mem_createFlashcards st ids batch)
    \<and> permuted (db_flashcards (snd (db_createFlashcards uuid_in accepts (rows_of st) ids batch)))
         (db_flashcards (rows_of st) @ fst (mem_createFlashcards st ids batch))
    \<and> (\<forall>sid s. mem_getSubject st sid = Some s \<longrightarrow>
          (\<exists>s'. mem_getSubject (snd (mem_createFlashcards st ids batch)) sid = Some s'
             \<and> to_num (s_flashcardsCount s')
                 = to_num (s_flashcardsCount s)
                   + int (length (filter (\<lambda>f. if_subjectId f = sid) batch))))
    \<and> (\<forall>s \<in> set (db_subjects (rows_of st)).
          \<exists>s' \<in> set (db_subjects (snd (db_createFlashcards uuid_in accepts (rows_of st) ids batch))).
            s_id s' = s_id s
            \<and> to_num (s_flashcardsCount s')
                = to_num (s_flashcardsCount s)
                  + int (length (filter (\<lambda>f. if_subjectId f = s_id s) batch)))"
proof -
  let ?mem = "mem_createFlashcards st ids batch"
  let ?db = "db_createFlashcards uuid_in accepts (rows_of st) ids batch"
  let ?sids = "map if_subjectId batch"
  note r = createFlashcards_rows [where accepts = accepts, OF assms]
  have one: "\<exists>rows. fst ?db = Inr rows \<and> permuted rows (fst ?mem)"
    by (simp add: r(2) permuted_refl)
  have two: "same_rows (snd ?db) (rows_of (snd ?mem))"
    by (simp add: r(2) same_rows_refl)
  have three: "fst ?mem = map (\<lambda>(i, item). flashcard_row uuid_in i item) (zip ids batch)"
    by (simp add: r(1))
  have four: "mem_getFlashcards (snd ?mem) None = mem_getFlashcards st None @ fst ?mem"
    by (simp add: mem_getFlashcards_def r(3))
  have five: "permuted (db_flashcards (snd ?db)) (db_flashcards (rows_of st) @ fst ?mem)"
    by (simp add: r(2)) (simp add: rows_of_def r(3) permuted_refl)
  have six: "\<exists>s'. mem_getSubject (snd ?mem) sid = Some s'
             \<and> to_num (s_flashcardsCount s')
                 = to_num (s_flashcardsCount s)
                   + int (length (filter (\<lambda>f. if_subjectId f = sid) batch))"
    if g: "mem_getSubject st sid = Some s" for sid s
  proof -
    have f: "fits (count_list ?sids sid) s'" if "map_get (m_subjects st) sid = Some s'" for s'
    proof -
      from keyed_get [OF assms(1) that] have "s_id s' = sid" "s' \<in> set (map_values (m_subjects st))"
        by simp_all
      with assms(8) show ?thesis by (auto simp: count_list_map)
    qed
    have "map_get (foldl count_one (m_subjects st) ?sids) sid
            = map_option (count_up (count_list ?sids sid)) (map_get (m_subjects st) sid)"
      by (rule count_one_get) (rule f)
    then have "mem_getSubject (snd ?mem) sid = Some (count_up (count_list ?sids sid) s)"
      using g by (simp add: r(1) mem_getSubject_def)
    then show ?thesis by (simp add: count_up_count count_list_map)
  qed
  have seven: "\<exists>s' \<in> set (db_subjects (snd ?db)). s_id s' = s_id s
            \<and> to_num (s_flashcardsCount s')
                = to_num (s_flashcardsCount s)
                  + int (length (filter (\<lambda>f. if_subjectId f = s_id s) batch))"
    if "s \<in> set (db_subjects (rows_of st))" for s
  proof -
    let ?s = "count_up (length (filter (\<lambda>f. if_subjectId f = s_id s) batch)) s"
    from that have "s \<in> set (map_values (m_subjects st))" by (simp add: rows_of_def)
    then have "?s \<in> set (map_values (m_subjects (snd ?mem)))" by (simp add: r(4))
    moreover have "db_subjects (snd ?db) = map_values (m_subjects (snd ?mem))"
      by (simp add: r(2)) (simp add: rows_of_def)
    ultimately have "?s \<in> set (db_subjects (snd ?db))" by simp
    moreover have "s_id ?s = s_id s" by (simp add: count_up_def)
    ultimately show ?thesis using count_up_count by blast
  qed
  from one two three four five six seven show ?thesis by blast
qed

text \<open>
  C8, as stated, fails: for a batch of one record whose \<^verbatim>\<open>difficulty\<close> is the empty
  string, the in-memory path stores \<^verbatim>\<open>"medium"\<close> and the relational path stores the
  empty string, so the two do not end with the same records.
\<close>

theorem createFlashcards_paths_differ:
  "fst (db_createFlashcards uuid_text clean_texts (rows_of store3)
          [''0f000000-0000-4000-8000-000000000002''] [blank_card])
     = Inr [flashcard_row uuid_text ''0f000000-0000-4000-8000-000000000002'' blank_card]
   \<and> f_difficulty (flashcard_row uuid_text ''0f000000-0000-4000-8000-000000000002'' blank_card)
       = Some ''''
   \<and> map f_difficulty
         (fst (mem_createFlashcards store3 [''0f000000-0000-4000-8000-000000000002''] [blank_card]))
       = [Some ''medium'']
   \<and> \<not> permuted [flashcard_row uuid_text ''0f000000-0000-4000-8000-000000000002'' blank_card]
         (fst (mem_createFlashcards store3 [''0f000000-0000-4000-8000-000000000002'']
                 [blank_card]))"
  by (simp add: db_createFlashcards_def db_add_flashcards_def rows_of_def store3_def
      map_values_def blank_card_def flashcard_row_def mem_createFlashcard_def Let_def
      map_get_def card_rome_def history_def geography_def uuid_columns_def printed_def
      uuid_text_def hex_lower_def new_Set_def set_add_def int4_def js_add_safe clean_texts_def)

text \<open>
  The two paths part as well where the column ends: with a stored
  \<^verbatim>\<open>flashcardsCount\<close> of 2147483647, the relational path has inserted the record
  when the update of the counter raises, and the in-memory path counts 2147483648.
\<close>

lemma createFlashcards_full_counter:
  "fst (db_createFlashcards uuid_text clean_texts (rows_of store_full)
          [''0f000000-0000-4000-8000-000000000003'']
          [medium_card ''0a000000-0000-4000-8000-000000000003''])
     = Inl OutOfRange
   \<and> map f_id (db_flashcards (snd (db_createFlashcards uuid_text clean_texts (rows_of store_full)
          [''0f000000-0000-4000-8000-000000000003'']
          [medium_card ''0a000000-0000-4000-8000-000000000003''])))
       = [''0f000000-0000-4000-8000-000000000003'']
   \<and> map_option s_flashcardsCount
         (mem_getSubject (snd (mem_createFlashcards store_full
            [''0f000000-0000-4000-8000-000000000003'']
            [medium_card ''0a000000-0000-4000-8000-000000000003'']))
            ''0a000000-0000-4000-8000-000000000003'')
       = Some (Some 2147483648)"
  by (simp add: db_createFlashcards_def db_add_flashcards_def rows_of_def store_full_def
      map_values_def medium_card_def flashcard_row_def mem_createFlashcard_def Let_def
      map_get_def archive_def uuid_columns_def printed_def mem_getSubject_def
      uuid_text_def hex_lower_def new_Set_def set_add_def int4_def js_add_safe clean_texts_def)

lemma store3_keyed: "keyed s_id (m_subjects store3) \<and> keyed f_id (m_flashcards store3)"
  by (simp add: keyed_def store3_def history_def geography_def card_rome_def)

lemma uuid_text_printed:
  "uuid_text ''0a000000-0000-4000-8000-000000000001'' = Some ''0a000000-0000-4000-8000-000000000001''
   \<and> uuid_text ''0a000000-0000-4000-8000-000000000002'' = Some ''0a000000-0000-4000-8000-000000000002''"
  by (simp add: uuid_text_def hex_lower_def)

theorem createFlashcards_paths_agree_witness:
  "keyed s_id (m_subjects store3) \<and> keyed f_id (m_flashcards store3)
   \<and> distinct [''0f000000-0000-4000-8000-000000000002'', ''0f000000-0000-4000-8000-000000000003'',
        ''0f000000-0000-4000-8000-000000000004'']
   \<and> set [''0f000000-0000-4000-8000-000000000002'', ''0f000000-0000-4000-8000-000000000003'',
        ''0f000000-0000-4000-8000-000000000004''] \<inter> fst ` set (m_flashcards store3) = {}
   \<and> list_all (\<lambda>item. plain (if_difficulty item) \<and> printed_columns uuid_text item)
         [medium_card ''0a000000-0000-4000-8000-000000000001'',
          medium_card ''0a000000-0000-4000-8000-000000000002'',
          medium_card ''0a000000-0000-4000-8000-000000000001'']
   \<and> list_all (\<lambda>s. fits (length (filter (\<lambda>f. if_subjectId f = s_id s)
         [medium_card ''0a000000-0000-4000-8000-000000000001'',
          medium_card ''0a000000-0000-4000-8000-000000000002'',
          medium_card ''0a000000-0000-4000-8000-000000000001''])) s)
         (map_values (m_subjects store3))
   \<and> clean_texts
         [medium_card ''0a000000-0000-4000-8000-000000000001'',
          medium_card ''0a000000-0000-4000-8000-000000000002'',
          medium_card ''0a000000-0000-4000-8000-000000000001'']
   \<and> (\<exists>rows. fst (db_createFlashcards uuid_text clean_texts (rows_of store3)
          [''0f000000-0000-4000-8000-000000000002'', ''0f000000-0000-4000-8000-000000000003'',
           ''0f000000-0000-4000-8000-000000000004'']
          [medium_card ''0a000000-0000-4000-8000-000000000001'',
           medium_card ''0a000000-0000-4000-8000-000000000002'',
           medium_card ''0a000000-0000-4000-8000-000000000001'']) = Inr rows
        \<and> permuted rows (fst (mem_createFlashcards store3
          [''0f000000-0000-4000-8000-000000000002'', ''0f000000-0000-4000-8000-000000000003'',
           ''0f000000-0000-4000-8000-000000000004'']
          [medium_card ''0a000000-0000-4000-8000-000000000001'',
           medium_card ''0a000000-0000-4000-8000-000000000002'',
           medium_card ''0a000000-0000-4000-8000-000000000001''])))
   \<and> same_rows (snd (db_createFlashcards uuid_text clean_texts (rows_of store3)
          [''0f000000-0000-4000-8000-000000000002'', ''0f000000-0000-4000-8000-000000000003'',
           ''0f000000-0000-4000-8000-000000000004'']
          [medium_card ''0a000000-0000-4000-8000-000000000001'',
           medium_card ''0a000000-0000-4000-8000-000000000002'',
           medium_card ''0a000000-0000-4000-8000-000000000001'']))
        (rows_of (snd (mem_createFlashcards store3
          [''0f000000-0000-4000-8000-000000000002'', ''0f000000-0000-4000-8000-000000000003'',
           ''0f000000-0000-4000-8000-000000000004'']
          [medium_card ''0a000000-0000-4000-8000-000000000001'',
           medium_card ''0a000000-0000-4000-8000-000000000002'',
           medium_card ''0a000000-0000-4000-8000-000000000001''])))
   \<and> (\<exists>s'. mem_getSubject (snd (mem_createFlashcards store3
          [''0f000000-0000-4000-8000-000000000002'', ''0f000000-0000-4000-8000-000000000003'',
           ''0f000000-0000-4000-8000-000000000004'']
          [medium_card ''0a000000-0000-4000-8000-000000000001'',
           medium_card ''0a000000-0000-4000-8000-000000000002'',
           medium_card ''0a000000-0000-4000-8000-000000000001'']))
          ''0a000000-0000-4000-8000-000000000001'' = Some s'
        \<and> to_num (s_flashcardsCount s') = 3)"
proof -
  let ?ids = "[''0f000000-0000-4000-8000-000000000002'', ''0f000000-0000-4000-8000-000000000003'',
               ''0f000000-0000-4000-8000-000000000004'']"
  let ?batch = "[medium_card ''0a000000-0000-4000-8000-000000000001'',
                 medium_card ''0a000000-0000-4000-8000-000000000002'',
                 medium_card ''0a000000-0000-4000-8000-000000000001'']"
  have k: "keyed s_id (m_subjects store3)" "keyed f_id (m_flashcards store3)"
    using store3_keyed by simp_all
  have l: "length ?ids = length ?batch" by simp
  have d: "distinct ?ids" by simp
  have f: "set ?ids \<inter> fst ` set (m_flashcards store3) = {}" by (simp add: store3_def)
  have nb: "?batch \<noteq> []" by simp
  have p: "\<forall>item \<in> set ?batch. plain (if_difficulty item) \<and> printed_columns uuid_text item"
    by (simp add: medium_card_def printed_columns_def uuid_text_printed)
  have r: "\<forall>s \<in> set (map_values (m_subjects store3)).
             fits (length (filter (\<lambda>f. if_subjectId f = s_id s) ?batch)) s"
    by (simp add: store3_def map_values_def history_def geography_def medium_card_def fits_def
        int4_def)
  have g: "mem_getSubject store3 ''0a000000-0000-4000-8000-000000000001'' = Some history"
    by (simp add: mem_getSubject_def store3_def map_get_def)
  have n: "to_num (s_flashcardsCount history)
             + int (length (filter (\<lambda>f. if_subjectId f = ''0a000000-0000-4000-8000-000000000001'')
                      ?batch)) = 3"
    by (simp add: history_def medium_card_def)
  have pl: "list_all (\<lambda>item. plain (if_difficulty item) \<and> printed_columns uuid_text item) ?batch"
    using p by (simp only: list_all_iff)
  have rl: "list_all (\<lambda>s. fits (length (filter (\<lambda>f. if_subjectId f = s_id s) ?batch)) s)
              (map_values (m_subjects store3))"
    using r by (simp only: list_all_iff)
  have acc: "clean_texts ?batch" by (simp add: clean_texts_def medium_card_def)
  note t = createFlashcards_paths_agree [where accepts = clean_texts, OF k l d f nb p r acc]
  from t have one: "\<exists>rows. fst (db_createFlashcards uuid_text clean_texts (rows_of store3) ?ids ?batch) = Inr rows
        \<and> permuted rows (fst (mem_createFlashcards store3 ?ids ?batch))"
    by (rule conjunct1)
  from t have two: "same_rows (snd (db_createFlashcards uuid_text clean_texts (rows_of store3) ?ids ?batch))
        (rows_of (snd (mem_createFlashcards store3 ?ids ?batch)))"
    by (rule conjunct2 [THEN conjunct1])
  from t [THEN conjunct2, THEN conjunct2, THEN conjunct2, THEN conjunct2, THEN conjunct2,
      THEN conjunct1, rule_format, OF g]
  have ex: "\<exists>s'. mem_getSubject (snd (mem_createFlashcards store3 ?ids ?batch))
              ''0a000000-0000-4000-8000-000000000001'' = Some s'
          \<and> to_num (s_flashcardsCount s') = 3"
    by (simp only: n)
  show ?thesis by (intro conjI k d f pl rl acc one two ex)
qed

section \<open>Reviewing a flashcard\<close>

lemma mem_updateFlashcard_increments:
  assumes "mem_getFlashcard st ident = Some flashcard"
    and "\<bar>to_num (f_timesReviewed flashcard) + 1\<bar> \<le> 9007199254740992"
  shows "\<exists>updated. fst (mem_updateFlashcard st now ident data) = Some updated
    \<and> mem_getFlashcard (snd (mem_updateFlashcard st now ident data)) ident = Some updated
    \<and> f_timesReviewed updated = Some (to_num (f_timesReviewed flashcard) + 1)"
  using assms
  by (simp add: mem_getFlashcard_def mem_updateFlashcard_def Let_def map_get_set js_add_safe)

text \<open>
  C2 holds for the in-memory store (\<open>mem_updateFlashcard_increments\<close>, for the counts
  a double holds exactly) and fails for the relational one: a flashcard reviewed once,
  rated again with \<^verbatim>\<open>{ difficulty: "easy" }\<close>, keeps \<^verbatim>\<open>timesReviewed\<close> 1
  there, where the in-memory store moves it to 2.
\<close>

theorem db_updateFlashcard_forgets_count:
  "db_getFlashcard tables1 ''f1'' = Some card_cells
   \<and> f_timesReviewed card_cells = Some 1
   \<and> db_updateFlashcard tables1 500 ''f1'' rate_easy
       = Inr (Some (card_cells\<lparr>f_difficulty := Some ''easy'', f_lastReviewed := Some 500,
                                f_timesReviewed := Some 1\<rparr>),
              tables1\<lparr>db_flashcards :=
                [card_cells\<lparr>f_difficulty := Some ''easy'', f_lastReviewed := Some 500,
                             f_timesReviewed := Some 1\<rparr>, card_forces]\<rparr>)
   \<and> fst (mem_updateFlashcard store1 500 ''f1'' rate_easy)
       = Some (card_cells\<lparr>f_difficulty := Some ''easy'', f_lastReviewed := Some 500,
                           f_timesReviewed := Some 2\<rparr>)"
  by (simp add: db_getFlashcard_def db_updateFlashcard_def mem_updateFlashcard_def Let_def
      tables1_def store1_def map_get_def spread_Flashcard_def rate_easy_def card_cells_def
      card_forces_def js_add_safe)

end
